theory Spec2Isabelle
  imports Complex_Main
begin

section \<open>Configuration object (unet\_unet++/src/config.py)\<close>

text \<open>
  The values a YAML document can hold. \<open>YNull\<close> is Python's \<open>None\<close>.
\<close>

datatype yaml = YNull | YBool bool | YInt int | YFloat real | YStr string | YList "yaml list"

text \<open>
  \<open>class Config(dict)\<close>: the constructor stores the text of the file in \<open>_yaml\<close> and the
  parsed mapping in \<open>_dict\<close>.
\<close>

record Config =
  Config_yaml :: string
  Config_dict :: "string \<rightharpoonup> yaml"

text \<open>
  \<open>__getattr__(self, key)\<close>, the hook Python calls for a name that is not an attribute
  of the object. \<open>self._dict.get(key)\<close> is \<open>None\<close> for an absent key and for a key
  stored with the value \<open>None\<close>; in both cases the body falls off its end (every
  fallback is commented out in the source), and a Python function that falls off its
  end returns \<open>None\<close>.
\<close>

definition dict_get :: "(string \<rightharpoonup> yaml) \<Rightarrow> string \<Rightarrow> yaml" where
  "dict_get d key = (case d key of None \<Rightarrow> YNull | Some v \<Rightarrow> v)"

definition Config_getattr :: "Config \<Rightarrow> string \<Rightarrow> yaml" where
  "Config_getattr self key =
     (if dict_get (Config_dict self) key \<noteq> YNull
      then the (Config_dict self key)
      else YNull)"

text \<open>
  \<open>DEFAULT_CONFIG\<close>, the table the source keeps in the class body. No code reads it.
\<close>

definition DEFAULT_CONFIG :: "(string \<times> yaml) list" where
  "DEFAULT_CONFIG =
    [(''MODE'', YInt 1), (''MODEL'', YInt 1), (''SCALE'', YInt 4), (''SEED'', YInt 10),
     (''GPU'', YList [YInt 0]), (''DEBUG'', YInt 0), (''VERBOSE'', YInt 0),
     (''LR'', YFloat (1 / 10000)), (''BETA1'', YFloat 0), (''BETA2'', YFloat (9 / 10)),
     (''BATCH_SIZE'', YInt 8), (''HR_SIZE'', YInt 256), (''SIGMA'', YInt 2),
     (''MAX_ITERS'', YFloat 20000000), (''EDGE_THRESHOLD'', YFloat (1 / 2)),
     (''L1_LOSS_WEIGHT'', YInt 1), (''FM_LOSS_WEIGHT'', YInt 10),
     (''STYLE_LOSS_WEIGHT'', YInt 250), (''CONTENT_LOSS_WEIGHT'', YFloat (1 / 10)),
     (''ADV_LOSS_WEIGHT1'', YFloat (1 / 10)), (''ADV_LOSS_WEIGHT2'', YInt 1),
     (''GAN_LOSS'', YStr ''hinge''), (''MGE_LOSS_WEIGHT'', YFloat (1 / 10)),
     (''SAVE_INTERVAL'', YInt 1000), (''SAMPLE_INTERVAL'', YInt 1000),
     (''SAMPLE_SIZE'', YInt 12), (''EVAL_INTERVAL'', YInt 0), (''LOG_INTERVAL'', YInt 10)]"

section \<open>Controllers (edge\_informed\_SISR/src/models.py)\<close>

subsection \<open>Configuration, errors, files\<close>

text \<open>
  The options \<open>models.py\<close> reads from its \<open>config\<close> argument, with the types the
  code uses them at.
\<close>

record config =
  PATH :: string
  MODE :: int
  SCALE :: int
  GPU :: "nat list"
  GAN_LOSS :: string
  LR :: real
  BETA1 :: real
  BETA2 :: real
  ADV_LOSS_WEIGHT1 :: real
  ADV_LOSS_WEIGHT2 :: real
  FM_LOSS_WEIGHT :: real
  L1_LOSS_WEIGHT :: real
  CONTENT_LOSS_WEIGHT :: real
  STYLE_LOSS_WEIGHT :: real

datatype error =
    KeyError string
  | UnpicklingError
  | FileNotFoundError
  | IndexError
  | ValueError
  | AttributeError
  | RuntimeError

text \<open>
  A checkpoint is the dictionary handed to \<open>torch.save\<close>: each of the three keys the
  code writes is present or absent, and a present key holds a value of the type
  \<open>save\<close> writes there. \<open>'p\<close> is a network's \<open>state_dict()\<close>.
\<close>

record 'p checkpoint =
  iteration_entry :: "int option"
  generator_entry :: "'p option"
  discriminator_entry :: "'p option"

datatype 'p stored = Pickled "'p checkpoint" | Unreadable

record 'p env =
  files :: "string \<rightharpoonup> 'p stored"
  cuda_is_available :: bool

definition os_path_exists :: "'p env \<Rightarrow> string \<Rightarrow> bool" where
  "os_path_exists e path = (files e path \<noteq> None)"

text \<open>\<open>os.path.join\<close> of two components (posixpath).\<close>

definition os_path_join :: "string \<Rightarrow> string \<Rightarrow> string" where
  "os_path_join a b =
     (if b \<noteq> [] \<and> hd b = CHR ''/'' then b
      else if a = [] \<or> last a = CHR ''/'' then a @ b
      else a @ ''/'' @ b)"

text \<open>
  \<open>torch.load(path, map_location)\<close>: the dictionary stored in the file. The two calls
  in \<open>load\<close> differ in \<open>map_location\<close> only, which moves the tensors to the CPU and
  leaves the dictionary as it is.
\<close>

definition torch_load :: "'p env \<Rightarrow> string \<Rightarrow> bool \<Rightarrow> error + 'p checkpoint" where
  "torch_load e path to_cpu =
     (case files e path of
        None \<Rightarrow> Inl FileNotFoundError
      | Some Unreadable \<Rightarrow> Inl UnpicklingError
      | Some (Pickled d) \<Rightarrow> Inr d)"

definition torch_save :: "'p checkpoint \<Rightarrow> string \<Rightarrow> 'p env \<Rightarrow> 'p env" where
  "torch_save d path e = e\<lparr>files := (files e)(path \<mapsto> Pickled d)\<rparr>"

subsection \<open>Tensors and the autograd graph\<close>

text \<open>
  An image tensor is \<open>[batch, channel, height, width]\<close>. A tensor that takes part in a
  training step carries, beside its data, the parameter groups that \<open>backward()\<close>
  reaches from it through the autograd graph; \<open>detach()\<close> cuts the graph.
\<close>

type_synonym tensor = "real list list list list"

datatype pgroup = GenParams | DisParams

record 'a tracked =
  data :: 'a
  leaves :: "pgroup set"

definition leaf :: "'a \<Rightarrow> 'a tracked" where
  "leaf x = \<lparr>data = x, leaves = {}\<rparr>"

definition detach :: "'a tracked \<Rightarrow> 'a tracked" where
  "detach t = t\<lparr>leaves := {}\<rparr>"

text \<open>The calls a controller makes on its collaborators, in the order it makes them.\<close>

datatype event =
    IterationIncrement
  | ZeroGrad pgroup
  | GeneratorForward
  | DiscriminatorForward
  | LossComputed string
  | Backward string
  | OptimizerStep pgroup

subsection \<open>BaseModel\<close>

text \<open>
  \<open>'p\<close> is a network's parameter state, \<open>'g\<close> the gradients accumulated on it
  (\<open>0\<close> when cleared), \<open>'o\<close> the state of an Adam optimizer. \<open>scale_kernel\<close> is the
  buffer only \<open>SRModel\<close> registers. \<open>events\<close> records the calls made so far.
\<close>

record ('p, 'g, 'o) controller =
  name :: string
  config :: config
  iteration :: int
  gen_weights_path :: string
  dis_weights_path :: string
  generator :: 'p
  discriminator :: 'p
  gen_grad :: 'g
  dis_grad :: 'g
  gen_optimizer :: 'o
  dis_optimizer :: 'o
  scale_kernel :: "tensor option"
  events :: "event list"

text \<open>
  \<open>BaseModel.__init__\<close> followed by the part of a subclass constructor that creates
  the two networks and the two optimizers (their initial states are arguments).
\<close>

definition BaseModel_init ::
  "string \<Rightarrow> config \<Rightarrow> 'p \<Rightarrow> 'p \<Rightarrow> 'o \<Rightarrow> 'o \<Rightarrow> ('p, 'g::zero, 'o) controller" where
  "BaseModel_init nm cfg gen0 dis0 gopt0 dopt0 =
     \<lparr>name = nm, config = cfg, iteration = 0,
      gen_weights_path = os_path_join (PATH cfg) (nm @ ''_gen.pth''),
      dis_weights_path = os_path_join (PATH cfg) (nm @ ''_dis.pth''),
      generator = gen0, discriminator = dis0, gen_grad = 0, dis_grad = 0,
      gen_optimizer = gopt0, dis_optimizer = dopt0,
      scale_kernel = None, events = []\<rparr>"

definition load_generator ::
  "'p env \<Rightarrow> ('p, 'g, 'o) controller \<Rightarrow> error + ('p, 'g, 'o) controller" where
  "load_generator e self =
     (if os_path_exists e (gen_weights_path self) then
        (case torch_load e (gen_weights_path self) (\<not> cuda_is_available e) of
           Inl err \<Rightarrow> Inl err
         | Inr d \<Rightarrow>
            (case generator_entry d of
               None \<Rightarrow> Inl (KeyError ''generator'')
             | Some g \<Rightarrow>
                (case iteration_entry d of
                   None \<Rightarrow> Inl (KeyError ''iteration'')
                 | Some i \<Rightarrow> Inr (self\<lparr>generator := g, iteration := i\<rparr>))))
      else Inr self)"

definition load_discriminator ::
  "'p env \<Rightarrow> ('p, 'g, 'o) controller \<Rightarrow> error + ('p, 'g, 'o) controller" where
  "load_discriminator e self =
     (if MODE (config self) = 1 \<and> os_path_exists e (dis_weights_path self) then
        (case torch_load e (dis_weights_path self) (\<not> cuda_is_available e) of
           Inl err \<Rightarrow> Inl err
         | Inr d \<Rightarrow>
            (case discriminator_entry d of
               None \<Rightarrow> Inl (KeyError ''discriminator'')
             | Some p \<Rightarrow> Inr (self\<lparr>discriminator := p\<rparr>)))
      else Inr self)"

text \<open>\<open>BaseModel.load\<close>: the generator block, then the discriminator block.\<close>

definition load :: "'p env \<Rightarrow> ('p, 'g, 'o) controller \<Rightarrow> error + ('p, 'g, 'o) controller" where
  "load e self =
     (case load_generator e self of
        Inl err \<Rightarrow> Inl err
      | Inr self' \<Rightarrow> load_discriminator e self')"

text \<open>\<open>BaseModel.save\<close>: two calls of \<open>torch.save\<close>, the generator file first.\<close>

definition save :: "('p, 'g, 'o) controller \<Rightarrow> 'p env \<Rightarrow> 'p env" where
  "save self e =
     torch_save
       \<lparr>iteration_entry = None, generator_entry = None,
        discriminator_entry = Some (discriminator self)\<rparr>
       (dis_weights_path self)
       (torch_save
          \<lparr>iteration_entry = Some (iteration self), generator_entry = Some (generator self),
           discriminator_entry = None\<rparr>
          (gen_weights_path self) e)"

text \<open>The paths of a controller are those its constructor derived from name and \<open>PATH\<close>.\<close>

definition paths_derived :: "('p, 'g, 'o) controller \<Rightarrow> bool" where
  "paths_derived self =
     (gen_weights_path self = os_path_join (PATH (config self)) (name self @ ''_gen.pth'') \<and>
      dis_weights_path self = os_path_join (PATH (config self)) (name self @ ''_dis.pth''))"

subsection \<open>Collaborators\<close>

text \<open>
  The networks, the library functions and the loss modules a controller calls, and the
  two services of the framework: \<open>autograd g l\<close> is the gradient \<open>l.backward()\<close> adds
  to the parameters of group \<open>g\<close>, \<open>adam_step\<close> one \<open>step()\<close> of an optimizer on its
  parameters. \<open>'s\<close> is the value of a zero-dimensional float tensor, as the loss
  modules return it. Its arithmetic belongs to the framework: \<open>t_add\<close> is tensor plus
  tensor, \<open>t_radd\<close> a Python number plus a tensor, \<open>t_mul\<close> and \<open>t_div\<close> a tensor times
  and over a Python number. Nothing is assumed of these four, so what is proved holds
  for float32 arithmetic with its rounding, infinities and NaN.
\<close>

record ('p, 'g, 'o, 's) nets =
  gen_forward :: "'p \<Rightarrow> tensor \<Rightarrow> tensor"
  dis_forward :: "'p \<Rightarrow> tensor \<Rightarrow> tensor \<times> tensor list"
  F_interpolate :: "tensor \<Rightarrow> int \<Rightarrow> tensor"
  torch_cat :: "tensor \<Rightarrow> tensor \<Rightarrow> tensor"
  adversarial_loss :: "tensor \<Rightarrow> bool \<Rightarrow> bool \<Rightarrow> 's"
  L1_loss :: "tensor \<Rightarrow> tensor \<Rightarrow> 's"
  content_loss :: "tensor \<Rightarrow> tensor \<Rightarrow> 's"
  style_loss :: "tensor \<Rightarrow> tensor \<Rightarrow> 's"
  t_add :: "'s \<Rightarrow> 's \<Rightarrow> 's"
  t_radd :: "real \<Rightarrow> 's \<Rightarrow> 's"
  t_mul :: "'s \<Rightarrow> real \<Rightarrow> 's"
  t_div :: "'s \<Rightarrow> real \<Rightarrow> 's"
  autograd :: "pgroup \<Rightarrow> 's tracked \<Rightarrow> 'g"
  adam_step :: "'o \<Rightarrow> 'p \<Rightarrow> 'g \<Rightarrow> 'o \<times> 'p"

definition emit :: "event \<Rightarrow> ('p, 'g, 'o) controller \<Rightarrow> ('p, 'g, 'o) controller" where
  "emit ev self = self\<lparr>events := events self @ [ev]\<rparr>"

text \<open>Operations on tensors: the result depends on whatever the operands depend on.\<close>

definition interpolate_t :: "('p, 'g, 'o, 's) nets \<Rightarrow> tensor tracked \<Rightarrow> int \<Rightarrow> tensor tracked" where
  "interpolate_t N x s = \<lparr>data = F_interpolate N (data x) s, leaves = leaves x\<rparr>"

definition cat_t :: "('p, 'g, 'o, 's) nets \<Rightarrow> tensor tracked \<Rightarrow> tensor tracked \<Rightarrow> tensor tracked" where
  "cat_t N a b = \<lparr>data = torch_cat N (data a) (data b), leaves = leaves a \<union> leaves b\<rparr>"

definition add_t :: "('p, 'g, 'o, 's) nets \<Rightarrow> 's tracked \<Rightarrow> 's tracked \<Rightarrow> 's tracked" where
  "add_t N a b = \<lparr>data = t_add N (data a) (data b), leaves = leaves a \<union> leaves b\<rparr>"

definition radd_t :: "('p, 'g, 'o, 's) nets \<Rightarrow> real \<Rightarrow> 's tracked \<Rightarrow> 's tracked" where
  "radd_t N x b = \<lparr>data = t_radd N x (data b), leaves = leaves b\<rparr>"

definition mul_t :: "('p, 'g, 'o, 's) nets \<Rightarrow> 's tracked \<Rightarrow> real \<Rightarrow> 's tracked" where
  "mul_t N a w = \<lparr>data = t_mul N (data a) w, leaves = leaves a\<rparr>"

definition div_t :: "('p, 'g, 'o, 's) nets \<Rightarrow> 's tracked \<Rightarrow> real \<Rightarrow> 's tracked" where
  "div_t N a d = \<lparr>data = t_div N (data a) d, leaves = leaves a\<rparr>"

text \<open>
  A Python variable that starts as the number \<open>0\<close> and has tensors added to it with
  \<open>+=\<close>: the first addition is number plus tensor, the later ones tensor plus tensor.
\<close>

datatype 's py_acc = PyNumber real | PyTensor "'s tracked"

definition iadd :: "('p, 'g, 'o, 's) nets \<Rightarrow> 's py_acc \<Rightarrow> 's tracked \<Rightarrow> 's py_acc" where
  "iadd N acc t =
     (case acc of PyNumber x \<Rightarrow> PyTensor (radd_t N x t) | PyTensor a \<Rightarrow> PyTensor (add_t N a t))"

text \<open>The value of \<open>acc\<close> after \<open>acc = 0; acc += x; for y in xs: acc += y\<close>.\<close>

definition running_sum :: "('p, 'g, 'o, 's) nets \<Rightarrow> 's \<Rightarrow> 's list \<Rightarrow> 's" where
  "running_sum N x xs = foldl (t_add N) (t_radd N 0 x) xs"

text \<open>Calls: each returns its result and the controller with the call recorded.\<close>

definition call_generator ::
  "('p, 'g, 'o, 's) nets \<Rightarrow> ('p, 'g, 'o) controller \<Rightarrow> tensor tracked \<Rightarrow>
     tensor tracked \<times> ('p, 'g, 'o) controller" where
  "call_generator N self x =
     (\<lparr>data = gen_forward N (generator self) (data x), leaves = insert GenParams (leaves x)\<rparr>,
      emit GeneratorForward self)"

definition call_discriminator ::
  "('p, 'g, 'o, 's) nets \<Rightarrow> ('p, 'g, 'o) controller \<Rightarrow> tensor tracked \<Rightarrow>
     (tensor tracked \<times> tensor tracked list) \<times> ('p, 'g, 'o) controller" where
  "call_discriminator N self x =
     (let r = dis_forward N (discriminator self) (data x);
          lv = insert DisParams (leaves x)
      in ((\<lparr>data = fst r, leaves = lv\<rparr>, map (\<lambda>f. \<lparr>data = f, leaves = lv\<rparr>) (snd r)),
          emit DiscriminatorForward self))"

definition call_adversarial_loss ::
  "('p, 'g, 'o, 's) nets \<Rightarrow> ('p, 'g, 'o) controller \<Rightarrow> tensor tracked \<Rightarrow> bool \<Rightarrow> bool \<Rightarrow>
     's tracked \<times> ('p, 'g, 'o) controller" where
  "call_adversarial_loss N self x is_real is_disc =
     (\<lparr>data = adversarial_loss N (data x) is_real is_disc, leaves = leaves x\<rparr>,
      emit (LossComputed ''adversarial_loss'') self)"

definition call_L1_loss ::
  "('p, 'g, 'o, 's) nets \<Rightarrow> ('p, 'g, 'o) controller \<Rightarrow> tensor tracked \<Rightarrow> tensor tracked \<Rightarrow>
     's tracked \<times> ('p, 'g, 'o) controller" where
  "call_L1_loss N self x y =
     (\<lparr>data = L1_loss N (data x) (data y), leaves = leaves x \<union> leaves y\<rparr>,
      emit (LossComputed ''L1_loss'') self)"

definition call_content_loss ::
  "('p, 'g, 'o, 's) nets \<Rightarrow> ('p, 'g, 'o) controller \<Rightarrow> tensor tracked \<Rightarrow> tensor tracked \<Rightarrow>
     's tracked \<times> ('p, 'g, 'o) controller" where
  "call_content_loss N self x y =
     (\<lparr>data = content_loss N (data x) (data y), leaves = leaves x \<union> leaves y\<rparr>,
      emit (LossComputed ''content_loss'') self)"

definition call_style_loss ::
  "('p, 'g, 'o, 's) nets \<Rightarrow> ('p, 'g, 'o) controller \<Rightarrow> tensor tracked \<Rightarrow> tensor tracked \<Rightarrow>
     's tracked \<times> ('p, 'g, 'o) controller" where
  "call_style_loss N self x y =
     (\<lparr>data = style_loss N (data x) (data y), leaves = leaves x \<union> leaves y\<rparr>,
      emit (LossComputed ''style_loss'') self)"

text \<open>\<open>optimizer.zero_grad()\<close>, \<open>loss.backward()\<close> and \<open>optimizer.step()\<close>.\<close>

definition zero_grad ::
  "pgroup \<Rightarrow> ('p, 'g::monoid_add, 'o) controller \<Rightarrow> ('p, 'g, 'o) controller" where
  "zero_grad g self =
     emit (ZeroGrad g)
       (case g of GenParams \<Rightarrow> self\<lparr>gen_grad := 0\<rparr> | DisParams \<Rightarrow> self\<lparr>dis_grad := 0\<rparr>)"

definition accumulate ::
  "('p, 'g::monoid_add, 'o, 's) nets \<Rightarrow> pgroup \<Rightarrow> 's tracked \<Rightarrow> 'g \<Rightarrow> 'g" where
  "accumulate N g loss old = (if g \<in> leaves loss then old + autograd N g loss else old)"

definition loss_backward ::
  "('p, 'g::monoid_add, 'o, 's) nets \<Rightarrow> string \<Rightarrow> 's tracked \<Rightarrow> ('p, 'g, 'o) controller \<Rightarrow>
     ('p, 'g, 'o) controller" where
  "loss_backward N nm loss self =
     emit (Backward nm)
       (self\<lparr>gen_grad := accumulate N GenParams loss (gen_grad self),
             dis_grad := accumulate N DisParams loss (dis_grad self)\<rparr>)"

definition optimizer_step ::
  "('p, 'g, 'o, 's) nets \<Rightarrow> pgroup \<Rightarrow> ('p, 'g, 'o) controller \<Rightarrow> ('p, 'g, 'o) controller" where
  "optimizer_step N g self =
     emit (OptimizerStep g)
       (case g of
          GenParams \<Rightarrow>
            (let r = adam_step N (gen_optimizer self) (generator self) (gen_grad self)
             in self\<lparr>gen_optimizer := fst r, generator := snd r\<rparr>)
        | DisParams \<Rightarrow>
            (let r = adam_step N (dis_optimizer self) (discriminator self) (dis_grad self)
             in self\<lparr>dis_optimizer := fst r, discriminator := snd r\<rparr>))"

subsection \<open>The fixed upsampling kernel of SRModel\<close>

text \<open>
  \<open>kernel = np.zeros((SCALE, SCALE)); kernel[0,0] = 1\<close>, then
  \<open>np.tile(kernel, (3, 1, 1, 1))\<close>, of shape \<open>(3, 1, SCALE, SCALE)\<close>. \<open>np.zeros\<close> raises
  ValueError on a negative dimension, and the assignment raises IndexError on an
  empty array.
\<close>

definition np_zeros :: "nat \<Rightarrow> nat \<Rightarrow> real list list" where
  "np_zeros h w = replicate h (replicate w 0)"

definition make_scale_kernel :: "int \<Rightarrow> error + tensor" where
  "make_scale_kernel s =
     (if s < 0 then Inl ValueError
      else if s = 0 then Inl IndexError
      else
        (let z = np_zeros (nat s) (nat s);
             kernel = z[0 := (z ! 0)[0 := 1]]
         in Inr (replicate 3 [kernel])))"

text \<open>
  Transposed convolution of one plane with one kernel, stride \<open>s\<close>, no padding: every
  input pixel \<open>(i, j)\<close> adds its value times \<open>k[ky][kx]\<close> to the output pixel
  \<open>(i * s + ky, j * s + kx)\<close>; the output has \<open>(H - 1) * s + kh\<close> rows and
  \<open>(W - 1) * s + kw\<close> columns.
\<close>

definition width :: "real list list \<Rightarrow> nat" where
  "width p = (if p = [] then 0 else length (hd p))"

definition conv_transpose_pixel ::
  "nat \<Rightarrow> real list list \<Rightarrow> real list list \<Rightarrow> nat \<Rightarrow> nat \<Rightarrow> real" where
  "conv_transpose_pixel s k p y x =
     (\<Sum>i\<leftarrow>[0..<length p]. \<Sum>j\<leftarrow>[0..<width p]. \<Sum>ky\<leftarrow>[0..<length k]. \<Sum>kx\<leftarrow>[0..<width k].
        if y = i * s + ky \<and> x = j * s + kx then p ! i ! j * k ! ky ! kx else 0)"

definition conv_transpose_plane ::
  "nat \<Rightarrow> real list list \<Rightarrow> real list list \<Rightarrow> real list list" where
  "conv_transpose_plane s k p =
     (let oh = nat ((int (length p) - 1) * int s + int (length k));
          ow = nat ((int (width p) - 1) * int s + int (width k))
      in map (\<lambda>y. map (\<lambda>x. conv_transpose_pixel s k p y x) [0..<ow]) [0..<oh])"

text \<open>
  \<open>F.conv_transpose2d(input, weight, padding=0, stride, groups)\<close> for the shape of
  weight the controller builds: as many groups as input channels and one output
  channel in each, so that output channel \<open>c\<close> is input channel \<open>c\<close> convolved with
  \<open>weight[c][0]\<close>. An input whose channel count differs from the weight's, and a
  stride that is not positive, raise RuntimeError.
\<close>

definition conv_transpose2d :: "tensor \<Rightarrow> tensor \<Rightarrow> int \<Rightarrow> nat \<Rightarrow> error + tensor" where
  "conv_transpose2d input weight stride groups =
     (if stride \<le> 0 \<or> groups \<noteq> length weight \<or> (\<exists>w \<in> set weight. length w \<noteq> 1)
         \<or> (\<exists>img \<in> set input. length img \<noteq> length weight)
      then Inl RuntimeError
      else Inr (map (\<lambda>img. map (\<lambda>(w, p). conv_transpose_plane (nat stride) (hd w) p)
                               (zip weight img)) input))"

subsection \<open>EdgeModel\<close>

definition EdgeModel_init ::
  "config \<Rightarrow> 'p \<Rightarrow> 'p \<Rightarrow> 'o \<Rightarrow> 'o \<Rightarrow> ('p, 'g::monoid_add, 'o) controller" where
  "EdgeModel_init cfg gen0 dis0 gopt0 dopt0 = BaseModel_init ''EdgeModel'' cfg gen0 dis0 gopt0 dopt0"

definition EdgeModel_forward ::
  "('p, 'g, 'o, 's) nets \<Rightarrow> ('p, 'g, 'o) controller \<Rightarrow> tensor \<Rightarrow> tensor \<Rightarrow>
     tensor tracked \<times> ('p, 'g, 'o) controller" where
  "EdgeModel_forward N self lr_images lr_edges =
     (let hr_images = interpolate_t N (leaf lr_images) (SCALE (config self));
          hr_edges = interpolate_t N (leaf lr_edges) (SCALE (config self));
          inputs = cat_t N hr_images hr_edges
      in call_generator N self inputs)"

definition EdgeModel_backward ::
  "('p, 'g::monoid_add, 'o, 's) nets \<Rightarrow> ('p, 'g, 'o) controller \<Rightarrow> 's tracked \<Rightarrow> 's tracked \<Rightarrow>
     ('p, 'g, 'o) controller" where
  "EdgeModel_backward N self gen_loss dis_loss =
     (let self = loss_backward N ''dis_loss'' dis_loss self;
          self = optimizer_step N DisParams self;
          self = loss_backward N ''gen_loss'' gen_loss self;
          self = optimizer_step N GenParams self
      in self)"

text \<open>
  The feature-matching loop \<open>for i in range(len(dis_real_feat))\<close>, on the list of
  indices still to visit. \<open>gen_fake_feat[i]\<close> raises IndexError when the fake pair has
  fewer feature layers; the controller then keeps the calls recorded so far.
\<close>

fun feature_matching ::
  "('p, 'g, 'o, 's) nets \<Rightarrow> tensor tracked list \<Rightarrow> tensor tracked list \<Rightarrow> nat list \<Rightarrow>
     's py_acc \<times> ('p, 'g, 'o) controller \<Rightarrow> ('p, 'g, 'o) controller \<times> (error + 's py_acc)" where
  "feature_matching N gen_fake_feat dis_real_feat [] acc = (snd acc, Inr (fst acc))"
| "feature_matching N gen_fake_feat dis_real_feat (i # rest) acc =
     (if i < length gen_fake_feat then
        (let (l, self) = call_L1_loss N (snd acc) (gen_fake_feat ! i) (detach (dis_real_feat ! i))
         in feature_matching N gen_fake_feat dis_real_feat rest (iadd N (fst acc) l, self))
      else (snd acc, Inl IndexError))"

text \<open>
  \<open>process\<close> returns \<open>(outputs, gen_loss, dis_loss, logs)\<close> or raises. Either way the
  controller keeps what was stored in it up to that point, so the model returns the
  controller together with the outcome. \<open>gen_loss\<close> and \<open>dis_loss\<close> are the number \<open>0\<close>
  when \<open>+=\<close> first adds a tensor to them. When the discriminator has no feature layer,
  \<open>gen_fm_loss\<close> is still a number at the end of the loop: the two statements before
  the log then compute on local values only, and \<open>gen_fm_loss.item()\<close> raises
  AttributeError.
\<close>

type_synonym ('p, 'g, 'o, 's) step_result =
  "('p, 'g, 'o) controller \<times>
   (error + tensor tracked \<times> 's tracked \<times> 's tracked \<times> (string \<times> 's) list)"

definition EdgeModel_process ::
  "('p, 'g::monoid_add, 'o, 's) nets \<Rightarrow> ('p, 'g, 'o) controller \<Rightarrow>
     tensor \<Rightarrow> tensor \<Rightarrow> tensor \<Rightarrow> tensor \<Rightarrow> ('p, 'g, 'o, 's) step_result" where
  "EdgeModel_process N self lr_images hr_images lr_edges hr_edges =
     (let self = emit IterationIncrement (self\<lparr>iteration := iteration self + 1\<rparr>);
          self = zero_grad GenParams self;
          self = zero_grad DisParams self;
          (outputs, self) = EdgeModel_forward N self lr_images lr_edges;
          gen_loss = 0;
          dis_loss = 0;
          dis_input_real = cat_t N (leaf hr_images) (leaf hr_edges);
          dis_input_fake = cat_t N (leaf hr_images) (detach outputs);
          ((dis_real, dis_real_feat), self) = call_discriminator N self dis_input_real;
          ((dis_fake, dis_fake_feat), self) = call_discriminator N self dis_input_fake;
          (dis_real_loss, self) = call_adversarial_loss N self dis_real True True;
          (dis_fake_loss, self) = call_adversarial_loss N self dis_fake False True;
          dis_loss = radd_t N dis_loss (div_t N (add_t N dis_real_loss dis_fake_loss) 2);
          gen_input_fake = cat_t N (leaf hr_images) outputs;
          ((gen_fake, gen_fake_feat), self) = call_discriminator N self gen_input_fake;
          (adv, self) = call_adversarial_loss N self gen_fake True False;
          gen_gan_loss = mul_t N adv (ADV_LOSS_WEIGHT1 (config self));
          gen_loss = radd_t N gen_loss gen_gan_loss;
          gen_fm_loss = PyNumber 0
      in case feature_matching N gen_fake_feat dis_real_feat [0..<length dis_real_feat]
                (gen_fm_loss, self) of
           (self, Inl err) \<Rightarrow> (self, Inl err)
         | (self, Inr (PyNumber x)) \<Rightarrow> (self, Inl AttributeError)
         | (self, Inr (PyTensor gen_fm_loss)) \<Rightarrow>
            (let gen_fm_loss = mul_t N gen_fm_loss (FM_LOSS_WEIGHT (config self));
                 gen_loss = add_t N gen_loss gen_fm_loss
             in (self, Inr (outputs, gen_loss, dis_loss,
                            [(''l_dis'', data dis_loss),
                             (''l_gen'', data gen_gan_loss),
                             (''l_fm'', data gen_fm_loss)]))))"

subsection \<open>SRModel\<close>

definition SRModel_init ::
  "config \<Rightarrow> 'p \<Rightarrow> 'p \<Rightarrow> 'o \<Rightarrow> 'o \<Rightarrow> error + ('p, 'g::monoid_add, 'o) controller" where
  "SRModel_init cfg gen0 dis0 gopt0 dopt0 =
     (case make_scale_kernel (SCALE cfg) of
        Inl err \<Rightarrow> Inl err
      | Inr kernel_weight \<Rightarrow>
          Inr ((BaseModel_init ''SRModel'' cfg gen0 dis0 gopt0 dopt0)
                 \<lparr>scale_kernel := Some kernel_weight\<rparr>))"

text \<open>The first line of \<open>SRModel.forward\<close>: the upsampled low-resolution image.\<close>

definition SRModel_upsample :: "('p, 'g, 'o) controller \<Rightarrow> tensor \<Rightarrow> error + tensor" where
  "SRModel_upsample self lr_images =
     (case scale_kernel self of
        None \<Rightarrow> Inl AttributeError
      | Some k \<Rightarrow> conv_transpose2d lr_images k (SCALE (config self)) 3)"

definition SRModel_forward ::
  "('p, 'g, 'o, 's) nets \<Rightarrow> ('p, 'g, 'o) controller \<Rightarrow> tensor \<Rightarrow> tensor \<Rightarrow>
     error + tensor tracked \<times> ('p, 'g, 'o) controller" where
  "SRModel_forward N self lr_images hr_edges =
     (case SRModel_upsample self lr_images of
        Inl err \<Rightarrow> Inl err
      | Inr hr_images \<Rightarrow>
          (let inputs = cat_t N (leaf hr_images) (leaf hr_edges)
           in Inr (call_generator N self inputs)))"

definition SRModel_backward ::
  "('p, 'g::monoid_add, 'o, 's) nets \<Rightarrow> ('p, 'g, 'o) controller \<Rightarrow> 's tracked \<Rightarrow> 's tracked \<Rightarrow>
     ('p, 'g, 'o) controller" where
  "SRModel_backward N self gen_loss dis_loss =
     (let self = loss_backward N ''dis_loss'' dis_loss self;
          self = optimizer_step N DisParams self;
          self = loss_backward N ''gen_loss'' gen_loss self;
          self = optimizer_step N GenParams self
      in self)"

definition SRModel_process ::
  "('p, 'g::monoid_add, 'o, 's) nets \<Rightarrow> ('p, 'g, 'o) controller \<Rightarrow>
     tensor \<Rightarrow> tensor \<Rightarrow> tensor \<Rightarrow> tensor \<Rightarrow> ('p, 'g, 'o, 's) step_result" where
  "SRModel_process N self lr_images hr_images lr_edges hr_edges =
     (let self = emit IterationIncrement (self\<lparr>iteration := iteration self + 1\<rparr>);
          self = zero_grad GenParams self;
          self = zero_grad DisParams self
      in case SRModel_forward N self lr_images hr_edges of
           Inl err \<Rightarrow> (self, Inl err)
         | Inr (outputs, self) \<Rightarrow>
            (let gen_loss = 0;
                 dis_loss = 0;
                 dis_input_real = leaf hr_images;
                 dis_input_fake = detach outputs;
                 ((dis_real, _), self) = call_discriminator N self dis_input_real;
                 ((dis_fake, _), self) = call_discriminator N self dis_input_fake;
                 (dis_real_loss, self) = call_adversarial_loss N self dis_real True True;
                 (dis_fake_loss, self) = call_adversarial_loss N self dis_fake False True;
                 dis_loss = radd_t N dis_loss (div_t N (add_t N dis_real_loss dis_fake_loss) 2);
                 gen_input_fake = outputs;
                 ((gen_fake, _), self) = call_discriminator N self gen_input_fake;
                 (adv, self) = call_adversarial_loss N self gen_fake True False;
                 gen_gan_loss = mul_t N adv (ADV_LOSS_WEIGHT2 (config self));
                 gen_loss = radd_t N gen_loss gen_gan_loss;
                 (l1, self) = call_L1_loss N self outputs (leaf hr_images);
                 gen_l1_loss = mul_t N l1 (L1_LOSS_WEIGHT (config self));
                 gen_loss = add_t N gen_loss gen_l1_loss;
                 (gen_content_loss, self) = call_content_loss N self outputs (leaf hr_images);
                 gen_content_loss = mul_t N gen_content_loss (CONTENT_LOSS_WEIGHT (config self));
                 gen_loss = add_t N gen_loss gen_content_loss;
                 (gen_style_loss, self) = call_style_loss N self outputs (leaf hr_images);
                 gen_style_loss = mul_t N gen_style_loss (STYLE_LOSS_WEIGHT (config self));
                 gen_loss = add_t N gen_loss gen_style_loss
             in (self, Inr (outputs, gen_loss, dis_loss,
                            [(''l_dis'', data dis_loss),
                             (''l_gen'', data gen_gan_loss),
                             (''l_l1'', data gen_l1_loss),
                             (''l_content'', data gen_content_loss),
                             (''l_style'', data gen_style_loss)]))))"

subsection \<open>GradientModel\<close>

definition GradientModel_init ::
  "config \<Rightarrow> 'p \<Rightarrow> 'p \<Rightarrow> 'o \<Rightarrow> 'o \<Rightarrow> ('p, 'g::monoid_add, 'o) controller" where
  "GradientModel_init cfg gen0 dis0 gopt0 dopt0 =
     BaseModel_init ''GradientModel'' cfg gen0 dis0 gopt0 dopt0"

definition GradientModel_forward ::
  "('p, 'g, 'o, 's) nets \<Rightarrow> ('p, 'g, 'o) controller \<Rightarrow> tensor \<Rightarrow> tensor \<Rightarrow>
     tensor tracked \<times> ('p, 'g, 'o) controller" where
  "GradientModel_forward N self lr_images lr_gradients =
     (let hr_images = interpolate_t N (leaf lr_images) (SCALE (config self));
          hr_gradients = interpolate_t N (leaf lr_gradients) (SCALE (config self));
          inputs = cat_t N hr_images hr_gradients
      in call_generator N self inputs)"

definition GradientModel_backward ::
  "('p, 'g::monoid_add, 'o, 's) nets \<Rightarrow> ('p, 'g, 'o) controller \<Rightarrow> 's tracked \<Rightarrow> 's tracked \<Rightarrow>
     ('p, 'g, 'o) controller" where
  "GradientModel_backward N self gen_loss dis_loss =
     (let self = loss_backward N ''dis_loss'' dis_loss self;
          self = optimizer_step N DisParams self;
          self = loss_backward N ''gen_loss'' gen_loss self;
          self = optimizer_step N GenParams self
      in self)"

definition GradientModel_process ::
  "('p, 'g::monoid_add, 'o, 's) nets \<Rightarrow> ('p, 'g, 'o) controller \<Rightarrow>
     tensor \<Rightarrow> tensor \<Rightarrow> tensor \<Rightarrow> tensor \<Rightarrow> ('p, 'g, 'o, 's) step_result" where
  "GradientModel_process N self lr_images hr_images lr_gradients hr_gradients =
     (let self = emit IterationIncrement (self\<lparr>iteration := iteration self + 1\<rparr>);
          self = zero_grad GenParams self;
          self = zero_grad DisParams self;
          (outputs, self) = GradientModel_forward N self lr_images lr_gradients;
          gen_loss = 0;
          dis_loss = 0;
          dis_input_real = cat_t N (leaf hr_images) (leaf hr_gradients);
          dis_input_fake = cat_t N (leaf hr_images) (detach outputs);
          ((dis_real, dis_real_feat), self) = call_discriminator N self dis_input_real;
          ((dis_fake, dis_fake_feat), self) = call_discriminator N self dis_input_fake;
          (dis_real_loss, self) = call_adversarial_loss N self dis_real True True;
          (dis_fake_loss, self) = call_adversarial_loss N self dis_fake False True;
          dis_loss = radd_t N dis_loss (div_t N (add_t N dis_real_loss dis_fake_loss) 2);
          gen_input_fake = cat_t N (leaf hr_images) outputs;
          ((gen_fake, gen_fake_feat), self) = call_discriminator N self gen_input_fake;
          (adv, self) = call_adversarial_loss N self gen_fake True False;
          gen_gan_loss = mul_t N adv (ADV_LOSS_WEIGHT1 (config self));
          gen_loss = radd_t N gen_loss gen_gan_loss;
          gen_fm_loss = PyNumber 0
      in case feature_matching N gen_fake_feat dis_real_feat [0..<length dis_real_feat]
                (gen_fm_loss, self) of
           (self, Inl err) \<Rightarrow> (self, Inl err)
         | (self, Inr (PyNumber x)) \<Rightarrow> (self, Inl AttributeError)
         | (self, Inr (PyTensor gen_fm_loss)) \<Rightarrow>
            (let gen_fm_loss = mul_t N gen_fm_loss (FM_LOSS_WEIGHT (config self));
                 gen_loss = add_t N gen_loss gen_fm_loss
             in (self, Inr (outputs, gen_loss, dis_loss,
                            [(''l_dis'', data dis_loss),
                             (''l_gen'', data gen_gan_loss),
                             (''l_fm'', data gen_fm_loss)]))))"

subsection \<open>The three controllers\<close>

datatype model = EdgeModel | SRModel | GradientModel

definition process ::
  "model \<Rightarrow> ('p, 'g::monoid_add, 'o, 's) nets \<Rightarrow> ('p, 'g, 'o) controller \<Rightarrow>
     tensor \<Rightarrow> tensor \<Rightarrow> tensor \<Rightarrow> tensor \<Rightarrow> ('p, 'g, 'o, 's) step_result" where
  "process m =
     (case m of EdgeModel \<Rightarrow> EdgeModel_process | SRModel \<Rightarrow> SRModel_process
      | GradientModel \<Rightarrow> GradientModel_process)"

definition backward ::
  "model \<Rightarrow> ('p, 'g::monoid_add, 'o, 's) nets \<Rightarrow> ('p, 'g, 'o) controller \<Rightarrow>
     's tracked \<Rightarrow> 's tracked \<Rightarrow> ('p, 'g, 'o) controller" where
  "backward m =
     (case m of EdgeModel \<Rightarrow> EdgeModel_backward | SRModel \<Rightarrow> SRModel_backward
      | GradientModel \<Rightarrow> GradientModel_backward)"

text \<open>
  What a step of the Edge or Gradient controller needs of the discriminator to run to
  its end: at least one feature layer for the real pair, and no fewer for the fake
  pair (the loop reads \<open>gen_fake_feat[i]\<close> for every layer of the real pair).
\<close>

definition feature_layers_ok ::
  "('p, 'g, 'o, 's) nets \<Rightarrow> ('p, 'g, 'o) controller \<Rightarrow>
     tensor \<Rightarrow> tensor \<Rightarrow> tensor \<Rightarrow> tensor \<Rightarrow> bool" where
  "feature_layers_ok N self lr_images hr_images lr_guide hr_guide =
     (let out = gen_forward N (generator self)
                  (torch_cat N (F_interpolate N lr_images (SCALE (config self)))
                               (F_interpolate N lr_guide (SCALE (config self))));
          d_real = dis_forward N (discriminator self) (torch_cat N hr_images hr_guide);
          d_fake = dis_forward N (discriminator self) (torch_cat N hr_images out)
      in snd d_real \<noteq> [] \<and> length (snd d_real) \<le> length (snd d_fake))"

subsection \<open>Shapes and slices\<close>

text \<open>
  The array \<open>kernel\<close> of \<open>SRModel.__init__\<close> for \<open>SCALE = n\<close>, before it is tiled:
  zero everywhere, one at \<open>[0, 0]\<close>.
\<close>

definition corner :: "nat \<Rightarrow> real list list" where
  "corner n = (np_zeros n n)[0 := (np_zeros n n ! 0)[0 := 1]]"

text \<open>A plane of \<open>H\<close> rows of \<open>W\<close> pixels; a batch of three-channel images of that size.\<close>

definition rect :: "nat \<Rightarrow> nat \<Rightarrow> real list list \<Rightarrow> bool" where
  "rect H W p = (length p = H \<and> (\<forall>row \<in> set p. length row = W))"

definition image_shape :: "nat \<Rightarrow> nat \<Rightarrow> tensor \<Rightarrow> bool" where
  "image_shape H W t = (\<forall>img \<in> set t. length img = 3 \<and> (\<forall>p \<in> set img. rect H W p))"

text \<open>
  The slices \<open>xs[::s]\<close> and \<open>t[:, :, ::s, ::s]\<close>: every \<open>s\<close>-th row and every \<open>s\<close>-th
  column of every plane. The controllers do not downsample; the slice is the
  observation under which the upsampling is inverted.
\<close>

definition every_nth :: "nat \<Rightarrow> 'a list \<Rightarrow> 'a list" where
  "every_nth s xs = map (\<lambda>i. xs ! (i * s)) [0..<(length xs + s - 1) div s]"

definition downsample :: "nat \<Rightarrow> tensor \<Rightarrow> tensor" where
  "downsample s t = map (map (\<lambda>p. map (every_nth s) (every_nth s p))) t"

subsection \<open>Concrete instances\<close>

definition example_config :: config where
  "example_config =
     \<lparr>PATH = ''checkpoints'', MODE = 1, SCALE = 2, GPU = [0], GAN_LOSS = ''hinge'',
      LR = 1 / 10000, BETA1 = 0, BETA2 = 9 / 10,
      ADV_LOSS_WEIGHT1 = 1 / 10, ADV_LOSS_WEIGHT2 = 1, FM_LOSS_WEIGHT = 10,
      L1_LOSS_WEIGHT = 1, CONTENT_LOSS_WEIGHT = 1 / 10, STYLE_LOSS_WEIGHT = 250\<rparr>"

definition example_controller :: "(nat, int, unit) controller" where
  "example_controller = BaseModel_init ''EdgeModel'' example_config 5 6 () ()"

definition example_env :: "nat env" where
  "example_env = \<lparr>files = Map.empty, cuda_is_available = False\<rparr>"

definition dis_only_env :: "nat env" where
  "dis_only_env =
     \<lparr>files = [''checkpoints/EdgeModel_dis.pth'' \<mapsto>
                 Pickled \<lparr>iteration_entry = None, generator_entry = None,
                          discriminator_entry = Some 9\<rparr>],
      cuda_is_available = False\<rparr>"

definition gen_only_env :: "nat env" where
  "gen_only_env =
     \<lparr>files = [''checkpoints/EdgeModel_gen.pth'' \<mapsto>
                 Pickled \<lparr>iteration_entry = Some 4, generator_entry = Some 21,
                          discriminator_entry = None\<rparr>],
      cuda_is_available = False\<rparr>"

definition broken_env :: "nat env" where
  "broken_env =
     \<lparr>files = [''checkpoints/EdgeModel_gen.pth'' \<mapsto> Unreadable],
      cuda_is_available = False\<rparr>"

definition example_nets :: "(nat, int, unit, real) nets" where
  "example_nets =
     \<lparr>gen_forward = (\<lambda>p x. x),
      dis_forward = (\<lambda>p x. (x, [x, x])),
      F_interpolate = (\<lambda>x s. x),
      torch_cat = (\<lambda>a b. a @ b),
      adversarial_loss = (\<lambda>x is_real is_disc. if is_real then 1 else 3),
      L1_loss = (\<lambda>x y. 2),
      content_loss = (\<lambda>x y. 4),
      style_loss = (\<lambda>x y. 5),
      t_add = (\<lambda>a b. a + b),
      t_radd = (\<lambda>x b. x + b),
      t_mul = (\<lambda>a w. a * w),
      t_div = (\<lambda>a d. a / d),
      autograd = (\<lambda>g l. 1),
      adam_step = (\<lambda>opt p g. (opt, p + nat \<bar>g\<bar>))\<rparr>"

definition example_gradient_controller :: "(nat, int, unit) controller" where
  "example_gradient_controller = GradientModel_init example_config 5 6 () ()"

definition example_gray :: tensor where
  "example_gray = [[[[1, 2], [3, 4]]]]"

definition example_image :: tensor where
  "example_image = [[[[1, 2], [3, 4]], [[5, 6], [7, 8]], [[9, 10], [11, 12]]]]"

definition example_sr_controller :: "(nat, int, unit) controller" where
  "example_sr_controller =
     (BaseModel_init ''SRModel'' example_config 5 6 () ())
       \<lparr>scale_kernel := Some (replicate 3 [[[1, 0], [0, 0]]])\<rparr>"

section \<open>Properties of the configuration object\<close>

lemma Config_getattr_set:
  "Config_dict self key = Some v \<Longrightarrow> Config_getattr self key = v"
  by (cases "v = YNull") (simp_all add: Config_getattr_def dict_get_def)

lemma Config_getattr_from_dict:
  "Config_getattr self key \<noteq> YNull \<Longrightarrow> Config_dict self key = Some (Config_getattr self key)"
  by (auto simp: Config_getattr_def dict_get_def split: option.splits if_splits)

lemma default_not_consulted:
  "map_of DEFAULT_CONFIG ''MODE'' = Some (YInt 1) \<and>
   Config_getattr \<lparr>Config_yaml = '''', Config_dict = Map.empty\<rparr> ''MODE'' = YNull"
  by (simp add: DEFAULT_CONFIG_def Config_getattr_def dict_get_def)

text \<open>
  Claim C9. A key that the loaded configuration does not set reads as \<open>None\<close> ("not
  provided"): the access returns a value and it is neither a number nor any other
  concrete default.
\<close>

theorem unset_key_reads_None:
  "Config_dict self key = None \<Longrightarrow> Config_getattr self key = YNull"
  by (simp add: Config_getattr_def dict_get_def)

theorem unset_key_reads_None_witness:
  "Config_dict \<lparr>Config_yaml = ''MODE: 1'', Config_dict = [''MODE'' \<mapsto> YInt 1]\<rparr> ''SCALE'' = None \<and>
   Config_getattr \<lparr>Config_yaml = ''MODE: 1'', Config_dict = [''MODE'' \<mapsto> YInt 1]\<rparr> ''SCALE'' = YNull"
  using unset_key_reads_None
    [of "\<lparr>Config_yaml = ''MODE: 1'', Config_dict = [''MODE'' \<mapsto> YInt 1]\<rparr>" "''SCALE''"]
  by simp

section \<open>Checkpoints: save and load\<close>

lemmas example_defs = example_controller_def example_config_def BaseModel_init_def
  os_path_join_def example_env_def dis_only_env_def gen_only_env_def broken_env_def


lemma os_path_join_inj:
  assumes "length s = length t" "s \<noteq> t" "s \<noteq> []" "t \<noteq> []" "hd s = hd t"
  shows "os_path_join a (n @ s) \<noteq> os_path_join a (n @ t)"
proof -
  have hd_eq: "hd (n @ s) = hd (n @ t)" using assms by (cases n) auto
  have ne: "n @ s \<noteq> []" "n @ t \<noteq> []" using assms by auto
  show ?thesis
    using assms hd_eq ne by (auto simp: os_path_join_def)
qed

lemma weights_paths_distinct:
  "os_path_join p (n @ ''_gen.pth'') \<noteq> os_path_join p (n @ ''_dis.pth'')"
  by (rule os_path_join_inj) simp_all


lemma paths_derived_distinct:
  "paths_derived c \<Longrightarrow> gen_weights_path c \<noteq> dis_weights_path c"
  by (simp add: paths_derived_def weights_paths_distinct)

lemma BaseModel_init_paths_derived: "paths_derived (BaseModel_init nm cfg g0 d0 og od)"
  by (simp add: paths_derived_def BaseModel_init_def)

lemma save_gen_file:
  "gen_weights_path c \<noteq> dis_weights_path c \<Longrightarrow>
   files (save c e) (gen_weights_path c) =
     Some (Pickled \<lparr>iteration_entry = Some (iteration c),
                    generator_entry = Some (generator c), discriminator_entry = None\<rparr>)"
  by (simp add: save_def torch_save_def)

lemma save_dis_file:
  "files (save c e) (dis_weights_path c) =
     Some (Pickled \<lparr>iteration_entry = None, generator_entry = None,
                    discriminator_entry = Some (discriminator c)\<rparr>)"
  by (simp add: save_def torch_save_def)

lemma load_generator_present:
  assumes "files e (gen_weights_path c) = Some (Pickled d)"
    and "generator_entry d = Some g" and "iteration_entry d = Some i"
  shows "load_generator e c = Inr (c\<lparr>generator := g, iteration := i\<rparr>)"
  using assms by (simp add: load_generator_def os_path_exists_def torch_load_def)

lemma load_generator_missing:
  "files e (gen_weights_path c) = None \<Longrightarrow> load_generator e c = Inr c"
  by (simp add: load_generator_def os_path_exists_def)

lemma load_discriminator_present:
  assumes "MODE (config c) = 1" and "files e (dis_weights_path c) = Some (Pickled d)"
    and "discriminator_entry d = Some p"
  shows "load_discriminator e c = Inr (c\<lparr>discriminator := p\<rparr>)"
  using assms by (simp add: load_discriminator_def os_path_exists_def torch_load_def)

lemma load_discriminator_skipped:
  "MODE (config c) \<noteq> 1 \<or> files e (dis_weights_path c) = None \<Longrightarrow> load_discriminator e c = Inr c"
  by (auto simp: load_discriminator_def os_path_exists_def)

lemma load_discriminator_frame:
  "load_discriminator e c = Inr c' \<Longrightarrow>
     generator c' = generator c \<and> iteration c' = iteration c \<and> config c' = config c"
  by (auto simp: load_discriminator_def split: if_splits sum.splits option.splits)

lemma load_generator_frame:
  "load_generator e c = Inr c' \<Longrightarrow>
     discriminator c' = discriminator c \<and> config c' = config c \<and>
     dis_weights_path c' = dis_weights_path c"
  by (auto simp: load_generator_def split: if_splits sum.splits option.splits)

lemma init_paths_derived:
  "paths_derived (EdgeModel_init cfg g0 d0 og od) \<and>
   name (EdgeModel_init cfg g0 d0 og od) = ''EdgeModel'' \<and>
   config (EdgeModel_init cfg g0 d0 og od) = cfg"
  "paths_derived (GradientModel_init cfg g0 d0 og od) \<and>
   name (GradientModel_init cfg g0 d0 og od) = ''GradientModel'' \<and>
   config (GradientModel_init cfg g0 d0 og od) = cfg"
  "SRModel_init cfg g0 d0 og od = Inr c0 \<Longrightarrow>
   paths_derived c0 \<and> name c0 = ''SRModel'' \<and> config c0 = cfg"
  by (auto simp: EdgeModel_init_def GradientModel_init_def SRModel_init_def BaseModel_init_def
      paths_derived_def split: sum.splits)

lemma example_sr_init:
  "SRModel_init example_config 5 6 () () = Inr example_sr_controller"
  by (simp add: SRModel_init_def make_scale_kernel_def np_zeros_def example_config_def
      example_sr_controller_def numeral_2_eq_2 numeral_3_eq_3 Let_def)

text \<open>
  Claim C7. \<open>save\<close> writes the iteration counter and the generator state to the
  \<open>_gen\<close> path and the discriminator state to the \<open>_dis\<close> path, which is a different
  path. \<open>load\<close> into any controller of the same name and configuration then succeeds
  and returns that controller with the saved iteration counter and generator state, and
  with the saved discriminator state when \<open>MODE\<close> is 1 (its own otherwise); nothing else
  in it changes. The controllers the three constructors build have the name and the
  paths this asks for.
\<close>

theorem save_load_roundtrip:
  "(paths_derived (c :: ('p, 'g::monoid_add, 'o) controller) \<and>
    paths_derived (fresh :: ('p, 'g, 'o) controller) \<and>
    name fresh = name c \<and> config fresh = config c \<longrightarrow>
      gen_weights_path c \<noteq> dis_weights_path c \<and>
      files (save c e) (gen_weights_path c) =
        Some (Pickled \<lparr>iteration_entry = Some (iteration c),
                       generator_entry = Some (generator c), discriminator_entry = None\<rparr>) \<and>
      files (save c e) (dis_weights_path c) =
        Some (Pickled \<lparr>iteration_entry = None, generator_entry = None,
                       discriminator_entry = Some (discriminator c)\<rparr>) \<and>
      load (save c e) fresh =
        Inr (fresh\<lparr>generator := generator c, iteration := iteration c,
                   discriminator := (if MODE (config c) = 1 then discriminator c
                                     else discriminator fresh)\<rparr>)) \<and>
   (paths_derived (EdgeModel_init cfg g0 d0 og od :: ('p, 'g::monoid_add, 'o) controller) \<and>
    name (EdgeModel_init cfg g0 d0 og od :: ('p, 'g, 'o) controller) = ''EdgeModel'' \<and>
    config (EdgeModel_init cfg g0 d0 og od :: ('p, 'g, 'o) controller) = cfg) \<and>
   (paths_derived (GradientModel_init cfg g0 d0 og od :: ('p, 'g, 'o) controller) \<and>
    name (GradientModel_init cfg g0 d0 og od :: ('p, 'g, 'o) controller) = ''GradientModel'' \<and>
    config (GradientModel_init cfg g0 d0 og od :: ('p, 'g, 'o) controller) = cfg) \<and>
   (SRModel_init cfg g0 d0 og od = Inr (c0 :: ('p, 'g, 'o) controller) \<longrightarrow>
    paths_derived c0 \<and> name c0 = ''SRModel'' \<and> config c0 = cfg)"
proof -
  have rt: "gen_weights_path c \<noteq> dis_weights_path c \<and>
      files (save c e) (gen_weights_path c) =
        Some (Pickled \<lparr>iteration_entry = Some (iteration c),
                       generator_entry = Some (generator c), discriminator_entry = None\<rparr>) \<and>
      files (save c e) (dis_weights_path c) =
        Some (Pickled \<lparr>iteration_entry = None, generator_entry = None,
                       discriminator_entry = Some (discriminator c)\<rparr>) \<and>
      load (save c e) fresh =
        Inr (fresh\<lparr>generator := generator c, iteration := iteration c,
                   discriminator := (if MODE (config c) = 1 then discriminator c
                                     else discriminator fresh)\<rparr>)"
    if a: "paths_derived c \<and> paths_derived fresh \<and> name fresh = name c \<and> config fresh = config c"
      for fresh :: "('q, 'h, 'r) controller" and c :: "('q, 'h, 'r) controller" and e
  proof -
    from a have pc: "paths_derived c" by simp
    have ne: "gen_weights_path c \<noteq> dis_weights_path c"
      using pc by (rule paths_derived_distinct)
    have pg: "gen_weights_path fresh = gen_weights_path c"
      and pd: "dis_weights_path fresh = dis_weights_path c"
      using a by (simp_all add: paths_derived_def)
    have cf: "config fresh = config c" using a by simp
    let ?m = "fresh\<lparr>generator := generator c, iteration := iteration c\<rparr>"
    have lg: "load_generator (save c e) fresh = Inr ?m"
      by (rule load_generator_present [where d = "\<lparr>iteration_entry = Some (iteration c),
                          generator_entry = Some (generator c), discriminator_entry = None\<rparr>"])
         (simp_all add: pg save_gen_file [OF ne])
    have ld: "load_discriminator (save c e) ?m =
                Inr (?m\<lparr>discriminator := (if MODE (config c) = 1 then discriminator c
                                             else discriminator fresh)\<rparr>)"
    proof (cases "MODE (config c) = 1")
      case True
      then have m1: "MODE (config ?m) = 1" by (simp add: cf)
      have "load_discriminator (save c e) ?m = Inr (?m\<lparr>discriminator := discriminator c\<rparr>)"
        by (rule load_discriminator_present [OF m1, where d = "\<lparr>iteration_entry = None,
               generator_entry = None, discriminator_entry = Some (discriminator c)\<rparr>"])
           (simp_all add: pd save_dis_file)
      then show ?thesis using True by simp
    next
      case False
      then have "load_discriminator (save c e) ?m = Inr ?m"
        by (simp add: load_discriminator_skipped cf)
      then show ?thesis using False by simp
    qed
    have "load (save c e) fresh =
        Inr (fresh\<lparr>generator := generator c, iteration := iteration c,
                   discriminator := (if MODE (config c) = 1 then discriminator c
                                     else discriminator fresh)\<rparr>)"
      by (simp add: load_def lg ld)
    with ne save_gen_file [OF ne] save_dis_file show ?thesis by blast
  qed
  show ?thesis
    using rt [of c fresh e] init_paths_derived(1,2) [of cfg g0 d0 og od]
      init_paths_derived(3) [of cfg g0 d0 og od c0]
    by blast
qed

theorem save_load_roundtrip_witness:
  "SRModel_init example_config 5 6 () () = Inr example_sr_controller \<and>
   paths_derived example_sr_controller \<and>
   load (save (example_sr_controller\<lparr>iteration := 7, generator := 11, discriminator := 13\<rparr>)
           example_env)
     example_sr_controller =
     Inr (example_sr_controller\<lparr>generator := 11, iteration := 7, discriminator := 13\<rparr>) \<and>
   load (save (example_controller\<lparr>iteration := 7, generator := 11, discriminator := 13\<rparr>)
           example_env)
     example_controller =
     Inr (example_controller\<lparr>generator := 11, iteration := 7, discriminator := 13\<rparr>)"
proof -
  let ?c = "example_sr_controller\<lparr>iteration := 7, generator := 11, discriminator := 13\<rparr>"
  let ?d = "example_controller\<lparr>iteration := 7, generator := 11, discriminator := 13\<rparr>"
  note sr = save_load_roundtrip [of ?c example_sr_controller example_env
      example_config 5 6 "()" "()" example_sr_controller]
  note ed = save_load_roundtrip [of ?d example_controller example_env
      example_config 5 6 "()" "()" example_sr_controller]
  have p: "paths_derived example_sr_controller" using sr example_sr_init by blast
  then have pc: "paths_derived ?c" by (simp add: paths_derived_def)
  have m: "MODE (config ?c) = 1" "MODE (config ?d) = 1"
    by (simp_all add: example_sr_controller_def example_controller_def BaseModel_init_def
        example_config_def)
  have l1: "load (save ?c example_env) example_sr_controller =
              Inr (example_sr_controller\<lparr>generator := 11, iteration := 7, discriminator := 13\<rparr>)"
    using sr p pc m(1) by simp
  have q: "paths_derived example_controller" "paths_derived ?d"
    by (simp_all add: paths_derived_def example_controller_def BaseModel_init_def)
  have l2: "load (save ?d example_env) example_controller =
              Inr (example_controller\<lparr>generator := 11, iteration := 7, discriminator := 13\<rparr>)"
    using ed q m(2) by simp
  from example_sr_init p l1 l2 show ?thesis by blast
qed

text \<open>
  Claim C8. \<open>load\<close> fails exactly when a file it reads exists and is damaged: the
  generator file is unreadable or lacks one of its two keys, or \<open>MODE\<close> is 1 and the
  discriminator file is unreadable or lacks its key. A missing file is never an error
  and never a file-not-found error; with neither file to read the controller is
  returned as it was. When the generator file is missing, generator state and
  iteration counter are unchanged. The discriminator state is taken from its file
  exactly when \<open>MODE\<close> is 1 and the file exists; otherwise it is unchanged.
\<close>

theorem load_missing_checkpoints:
  "((\<exists>err. load e c = Inl err) \<longleftrightarrow>
      files e (gen_weights_path c) = Some Unreadable \<or>
      (\<exists>d. files e (gen_weights_path c) = Some (Pickled d) \<and>
           (generator_entry d = None \<or> iteration_entry d = None)) \<or>
      MODE (config c) = 1 \<and>
        (files e (dis_weights_path c) = Some Unreadable \<or>
         (\<exists>d. files e (dis_weights_path c) = Some (Pickled d) \<and>
              discriminator_entry d = None))) \<and>
   (files e (gen_weights_path c) = None \<and>
      (files e (dis_weights_path c) = None \<or> MODE (config c) \<noteq> 1) \<longrightarrow> load e c = Inr c) \<and>
   load e c \<noteq> Inl FileNotFoundError \<and>
   (\<forall>c'. load e c = Inr c' \<longrightarrow>
      (files e (gen_weights_path c) = None \<longrightarrow>
         generator c' = generator c \<and> iteration c' = iteration c) \<and>
      (if MODE (config c) = 1 \<and> files e (dis_weights_path c) \<noteq> None
       then \<exists>d. files e (dis_weights_path c) = Some (Pickled d) \<and>
                discriminator_entry d = Some (discriminator c')
       else discriminator c' = discriminator c))"
proof (intro conjI allI impI)
  show "(\<exists>err. load e c = Inl err) \<longleftrightarrow>
      files e (gen_weights_path c) = Some Unreadable \<or>
      (\<exists>d. files e (gen_weights_path c) = Some (Pickled d) \<and>
           (generator_entry d = None \<or> iteration_entry d = None)) \<or>
      MODE (config c) = 1 \<and>
        (files e (dis_weights_path c) = Some Unreadable \<or>
         (\<exists>d. files e (dis_weights_path c) = Some (Pickled d) \<and>
              discriminator_entry d = None))"
  proof (cases "load_generator e c")
    case (Inl err)
    then have "load e c = Inl err" by (simp add: load_def)
    moreover from Inl have "files e (gen_weights_path c) = Some Unreadable \<or>
      (\<exists>d. files e (gen_weights_path c) = Some (Pickled d) \<and>
           (generator_entry d = None \<or> iteration_entry d = None))"
      by (auto simp: load_generator_def torch_load_def os_path_exists_def
          split: if_splits option.splits stored.splits)
    ultimately show ?thesis by auto
  next
    case (Inr m)
    from load_generator_frame [OF Inr]
    have fr: "config m = config c" "dis_weights_path m = dis_weights_path c" by simp_all
    have g: "\<not> (files e (gen_weights_path c) = Some Unreadable \<or>
      (\<exists>d. files e (gen_weights_path c) = Some (Pickled d) \<and>
           (generator_entry d = None \<or> iteration_entry d = None)))"
      using Inr
      by (auto simp: load_generator_def torch_load_def os_path_exists_def
          split: if_splits option.splits stored.splits)
    have l: "load e c = load_discriminator e m" using Inr by (simp add: load_def)
    have "(\<exists>err. load_discriminator e m = Inl err) \<longleftrightarrow>
          MODE (config c) = 1 \<and>
          (files e (dis_weights_path c) = Some Unreadable \<or>
           (\<exists>d. files e (dis_weights_path c) = Some (Pickled d) \<and>
                discriminator_entry d = None))"
      by (auto simp: load_discriminator_def torch_load_def os_path_exists_def fr
          split: if_splits option.splits stored.splits)
    with g l show ?thesis by auto
  qed
next
  assume "files e (gen_weights_path c) = None \<and>
      (files e (dis_weights_path c) = None \<or> MODE (config c) \<noteq> 1)"
  then show "load e c = Inr c"
    by (auto simp: load_def load_generator_missing load_discriminator_skipped)
next
  show "load e c \<noteq> Inl FileNotFoundError"
    by (auto simp: load_def load_generator_def load_discriminator_def torch_load_def
        os_path_exists_def split: sum.splits option.splits stored.splits if_splits)
next
  fix c' assume "load e c = Inr c'" "files e (gen_weights_path c) = None"
  then show "generator c' = generator c" "iteration c' = iteration c"
    by (auto simp: load_def load_generator_missing dest: load_discriminator_frame)
next
  fix c' assume l: "load e c = Inr c'"
  then obtain m where m: "load_generator e c = Inr m" and d: "load_discriminator e m = Inr c'"
    by (auto simp: load_def split: sum.splits)
  from load_generator_frame [OF m] have fr: "discriminator m = discriminator c"
    "config m = config c" "dis_weights_path m = dis_weights_path c" by simp_all
  show "if MODE (config c) = 1 \<and> files e (dis_weights_path c) \<noteq> None
       then \<exists>d. files e (dis_weights_path c) = Some (Pickled d) \<and>
                discriminator_entry d = Some (discriminator c')
       else discriminator c' = discriminator c"
    using d fr
    by (auto simp: load_discriminator_def torch_load_def os_path_exists_def
        split: sum.splits option.splits stored.splits if_splits)
qed

theorem load_missing_checkpoints_witness:
  "files example_env (gen_weights_path example_controller) = None \<and>
   files example_env (dis_weights_path example_controller) = None \<and>
   load example_env example_controller = Inr example_controller \<and>
   files gen_only_env (dis_weights_path example_controller) = None \<and>
   load gen_only_env example_controller =
     Inr (example_controller\<lparr>generator := 21, iteration := 4\<rparr>) \<and>
   files dis_only_env (gen_weights_path example_controller) = None \<and>
   MODE (config example_controller) = 1 \<and>
   load dis_only_env example_controller = Inr (example_controller\<lparr>discriminator := 9\<rparr>) \<and>
   files broken_env (gen_weights_path example_controller) = Some Unreadable \<and>
   (\<exists>err. load broken_env example_controller = Inl err)"
proof -
  have g1: "files example_env (gen_weights_path example_controller) = None"
    and d1: "files example_env (dis_weights_path example_controller) = None"
    by (simp_all add: example_env_def)
  have l1: "load example_env example_controller = Inr example_controller"
    using load_missing_checkpoints [of example_env example_controller] g1 d1 by blast
  have g2: "files gen_only_env (gen_weights_path example_controller) =
               Some (Pickled \<lparr>iteration_entry = Some 4, generator_entry = Some 21,
                               discriminator_entry = None\<rparr>)"
    and d2: "files gen_only_env (dis_weights_path example_controller) = None"
    by (simp_all add: example_defs)
  have "\<not> (\<exists>err. load gen_only_env example_controller = Inl err)"
    using load_missing_checkpoints [of gen_only_env example_controller] g2 d2 by auto
  then have "\<exists>c'. load gen_only_env example_controller = Inr c'"
    by (cases "load gen_only_env example_controller") auto
  have "load_generator gen_only_env example_controller =
          Inr (example_controller\<lparr>generator := 21, iteration := 4\<rparr>)"
    using g2 by (rule load_generator_present) simp_all
  then have l2: "load gen_only_env example_controller =
     Inr (example_controller\<lparr>generator := 21, iteration := 4\<rparr>)"
    using d2 by (simp add: load_def load_discriminator_skipped)
  have g3: "files dis_only_env (gen_weights_path example_controller) = None"
    and d3: "files dis_only_env (dis_weights_path example_controller) =
               Some (Pickled \<lparr>iteration_entry = None, generator_entry = None,
                               discriminator_entry = Some 9\<rparr>)"
    and m3: "MODE (config example_controller) = 1"
    by (simp_all add: example_defs)
  have l3: "load dis_only_env example_controller = Inr (example_controller\<lparr>discriminator := 9\<rparr>)"
    using g3 d3 m3 by (simp add: load_def load_generator_missing load_discriminator_present)
  have g4: "files broken_env (gen_weights_path example_controller) = Some Unreadable"
    by (simp add: example_defs)
  have l4: "\<exists>err. load broken_env example_controller = Inl err"
    using load_missing_checkpoints [of broken_env example_controller] g4 by blast
  from g1 d1 l1 d2 l2 g3 m3 l3 g4 l4 show ?thesis by blast
qed

text \<open>
  Claim C10. With no generator file, \<open>MODE = 1\<close> and a discriminator file, \<open>load\<close>
  replaces the discriminator state and nothing else: iteration counter and generator
  state stay as they were, whatever the discriminator file holds under other keys.
\<close>

theorem load_discriminator_only:
  assumes "files e (gen_weights_path c) = None" and "MODE (config c) = 1"
    and "files e (dis_weights_path c) = Some (Pickled d)"
    and "discriminator_entry d = Some p"
  shows "load e c = Inr (c\<lparr>discriminator := p\<rparr>)"
  using assms
  by (simp add: load_def load_generator_missing load_discriminator_present)

theorem load_discriminator_only_witness:
  "files dis_only_env (gen_weights_path example_controller) = None \<and>
   MODE (config example_controller) = 1 \<and>
   load dis_only_env example_controller = Inr (example_controller\<lparr>discriminator := 9\<rparr>) \<and>
   iteration (example_controller\<lparr>discriminator := 9\<rparr>) = 0 \<and>
   generator (example_controller\<lparr>discriminator := 9\<rparr>) = 5"
  using load_discriminator_only [of dis_only_env example_controller
      "\<lparr>iteration_entry = None, generator_entry = None, discriminator_entry = Some 9\<rparr>" 9]
  by (simp add: example_defs)

section \<open>One training step\<close>

subsection \<open>Auxiliary facts\<close>

lemmas step_defs = loss_backward_def optimizer_step_def emit_def Let_def

lemma EdgeModel_backward_events:
  "events (EdgeModel_backward N self gl dl) =
     events self @ [Backward ''dis_loss'', OptimizerStep DisParams,
                    Backward ''gen_loss'', OptimizerStep GenParams]"
  by (simp add: EdgeModel_backward_def step_defs)

lemma EdgeModel_backward_discriminator:
  "discriminator (EdgeModel_backward N self gl dl) =
     snd (adam_step N (dis_optimizer self) (discriminator self)
            (accumulate N DisParams dl (dis_grad self)))"
  by (simp add: EdgeModel_backward_def step_defs)

lemma EdgeModel_backward_generator:
  "generator (EdgeModel_backward N self gl dl) =
     snd (adam_step N (gen_optimizer self) (generator self)
            (accumulate N GenParams gl (accumulate N GenParams dl (gen_grad self))))"
  by (simp add: EdgeModel_backward_def step_defs)

lemma backward_same:
  "SRModel_backward = EdgeModel_backward" "GradientModel_backward = EdgeModel_backward"
  by (simp_all add: fun_eq_iff SRModel_backward_def GradientModel_backward_def EdgeModel_backward_def)

lemma backward_Edge: "backward m = EdgeModel_backward"
  by (cases m) (simp_all add: backward_def backward_same)

lemma emit_fields [simp]:
  "events (emit ev s) = events s @ [ev]"
  "generator (emit ev s) = generator s"
  "discriminator (emit ev s) = discriminator s"
  "config (emit ev s) = config s"
  "iteration (emit ev s) = iteration s"
  "gen_grad (emit ev s) = gen_grad s"
  "dis_grad (emit ev s) = dis_grad s"
  "scale_kernel (emit ev s) = scale_kernel s"
  by (simp_all add: emit_def)

lemma zero_grad_fields [simp]:
  "events (zero_grad g s) = events s @ [ZeroGrad g]"
  "generator (zero_grad g s) = generator s"
  "discriminator (zero_grad g s) = discriminator s"
  "config (zero_grad g s) = config s"
  "iteration (zero_grad g s) = iteration s"
  "scale_kernel (zero_grad g s) = scale_kernel s"
  by (cases g; simp add: zero_grad_def)+

lemma controller_events_id: "s\<lparr>events := events s @ []\<rparr> = (s :: ('p, 'g, 'o) controller)"
  by simp

lemma feature_matching_state:
  "fst (feature_matching N gf rf idx (acc, s)) =
     s\<lparr>events := events s @
         replicate (length (takeWhile (\<lambda>i. i < length gf) idx)) (LossComputed ''L1_loss'')\<rparr>"
proof (induction idx arbitrary: acc s)
  case Nil
  then show ?case by simp
next
  case (Cons i idx)
  then show ?case
    by (simp add: call_L1_loss_def emit_def replicate_append_same)
qed

lemma feature_matching_fails:
  "\<exists>i \<in> set idx. \<not> i < length gf \<Longrightarrow> snd (feature_matching N gf rf idx acc) = Inl IndexError"
proof (induction idx arbitrary: acc)
  case Nil
  then show ?case by simp
next
  case (Cons i idx)
  then show ?case by (cases "i < length gf") (auto simp: split_def Let_def)
qed

lemma feature_matching_tensor:
  "\<forall>i \<in> set idx. i < length gf \<Longrightarrow>
   snd (feature_matching N gf rf idx (PyTensor a, s)) =
     Inr (PyTensor
       \<lparr>data = foldl (t_add N) (data a) (map (\<lambda>i. L1_loss N (data (gf ! i)) (data (rf ! i))) idx),
        leaves = leaves a \<union> (\<Union>i \<in> set idx. leaves (gf ! i))\<rparr>)"
proof (induction idx arbitrary: a s)
  case Nil
  then show ?case by simp
next
  case (Cons i idx)
  then show ?case
    by (simp add: call_L1_loss_def iadd_def add_t_def detach_def Un_assoc)
qed

lemma takeWhile_upt: "takeWhile (\<lambda>i. i < m) [0..<n] = [0..<min m n]"
proof (cases "n \<le> m")
  case True
  then show ?thesis by (simp add: takeWhile_eq_all_conv [THEN iffD2] min_def)
next
  case False
  then have "[0..<n] = [0..<m] @ m # [Suc m..<n]"
    by (metis less_imp_add_positive not_le upt_add_eq_append upt_conv_Cons zero_le add.commute add.left_neutral)
  moreover have "takeWhile (\<lambda>i. i < m) ([0..<m] @ m # [Suc m..<n]) = takeWhile (\<lambda>i. i < m) [0..<m]"
    by (rule takeWhile_tail) simp
  ultimately show ?thesis using False by (simp add: takeWhile_eq_all_conv [THEN iffD2] min_def)
qed

lemma feature_matching_range:
  "feature_matching N (map (\<lambda>f. \<lparr>data = f, leaves = lv\<rparr>) ff) (map (\<lambda>f. \<lparr>data = f, leaves = lv'\<rparr>) rf)
      [0..<length rf] (PyNumber 0, self) =
     (self\<lparr>events := events self @
         replicate (min (length ff) (length rf)) (LossComputed ''L1_loss'')\<rparr>,
      if length ff < length rf then Inl IndexError
      else if rf = [] then Inr (PyNumber 0)
      else Inr (PyTensor
             \<lparr>data = running_sum N (L1_loss N (ff ! 0) (rf ! 0))
                       (map (\<lambda>i. L1_loss N (ff ! i) (rf ! i)) [1..<length rf]),
              leaves = lv\<rparr>))"
  (is "?fm = (?st, ?out)")
proof (rule prod_eqI)
  show "fst ?fm = fst (?st, ?out)"
    by (simp add: feature_matching_state takeWhile_upt)
  show "snd ?fm = snd (?st, ?out)"
  proof (cases "length ff < length rf")
    case True
    then have "\<exists>i \<in> set [0..<length rf]. \<not> i < length (map (\<lambda>f. \<lparr>data = f, leaves = lv\<rparr>) ff)"
      by (auto intro: bexI [where x = "length ff"])
    from feature_matching_fails [OF this] True show ?thesis by simp
  next
    case False
    show ?thesis
    proof (cases "rf = []")
      case True
      then show ?thesis by simp
    next
      case ne: False
      then have n: "0 < length rf" by simp
      have le: "length rf \<le> length ff" using False by simp
      have up: "[0..<length rf] = 0 # [1..<length rf]" using n by (simp add: upt_conv_Cons)
      let ?gf = "map (\<lambda>f. \<lparr>data = f, leaves = lv\<rparr>) ff"
      let ?rf = "map (\<lambda>f. \<lparr>data = f, leaves = lv'\<rparr>) rf"
      have all: "\<forall>i \<in> set [1..<length rf]. i < length ?gf" using le by simp
      have sum: "map (\<lambda>i. L1_loss N (data (?gf ! i)) (data (?rf ! i))) [1..<length rf] =
                 map (\<lambda>i. L1_loss N (ff ! i) (rf ! i)) [1..<length rf]"
        using le by (intro map_cong) simp_all
      have lvs: "(\<Union>i \<in> set [1..<length rf]. leaves (?gf ! i)) \<subseteq> lv"
        using le by auto
      have step: "?fm = feature_matching N ?gf ?rf [1..<length rf]
                          (PyTensor \<lparr>data = t_radd N 0 (L1_loss N (ff ! 0) (rf ! 0)), leaves = lv\<rparr>,
                           emit (LossComputed ''L1_loss'') self)"
      proof -
        have "ff \<noteq> []" using n le by auto
        then show ?thesis
          using n by (subst up) (simp add: call_L1_loss_def iadd_def radd_t_def detach_def)
      qed
      have "snd ?fm =
              Inr (PyTensor
                \<lparr>data = foldl (t_add N) (t_radd N 0 (L1_loss N (ff ! 0) (rf ! 0)))
                          (map (\<lambda>i. L1_loss N (data (?gf ! i)) (data (?rf ! i))) [1..<length rf]),
                 leaves = lv \<union> (\<Union>i \<in> set [1..<length rf]. leaves (?gf ! i))\<rparr>)"
        unfolding step by (subst feature_matching_tensor [OF all]) simp
      also have "\<dots> = Inr (PyTensor
             \<lparr>data = running_sum N (L1_loss N (ff ! 0) (rf ! 0))
                       (map (\<lambda>i. L1_loss N (ff ! i) (rf ! i)) [1..<length rf]),
              leaves = lv\<rparr>)"
        unfolding sum running_sum_def Un_absorb2 [OF lvs] ..
      finally show ?thesis using False ne by simp
    qed
  qed
qed

lemmas tensor_defs = call_generator_def call_discriminator_def call_adversarial_loss_def
  call_L1_loss_def call_content_loss_def call_style_loss_def
  interpolate_t_def cat_t_def add_t_def radd_t_def mul_t_def div_t_def leaf_def detach_def

lemma EdgeModel_process_cases:
  "EdgeModel_process N self lr_images hr_images lr_edges hr_edges =
     (let out = gen_forward N (generator self)
                  (torch_cat N (F_interpolate N lr_images (SCALE (config self)))
                               (F_interpolate N lr_edges (SCALE (config self))));
          d_real = dis_forward N (discriminator self) (torch_cat N hr_images hr_edges);
          d_fake = dis_forward N (discriminator self) (torch_cat N hr_images out);
          l_dis = t_radd N 0 (t_div N (t_add N (adversarial_loss N (fst d_real) True True)
                                               (adversarial_loss N (fst d_fake) False True)) 2);
          l_gen = t_mul N (adversarial_loss N (fst d_fake) True False)
                    (ADV_LOSS_WEIGHT1 (config self));
          l_fm = t_mul N (running_sum N (L1_loss N (snd d_fake ! 0) (snd d_real ! 0))
                            (map (\<lambda>i. L1_loss N (snd d_fake ! i) (snd d_real ! i))
                               [1..<length (snd d_real)]))
                   (FM_LOSS_WEIGHT (config self))
      in (self\<lparr>iteration := iteration self + 1, gen_grad := 0, dis_grad := 0,
                events := events self @
                  [IterationIncrement, ZeroGrad GenParams, ZeroGrad DisParams,
                   GeneratorForward, DiscriminatorForward, DiscriminatorForward,
                   LossComputed ''adversarial_loss'', LossComputed ''adversarial_loss'',
                   DiscriminatorForward, LossComputed ''adversarial_loss''] @
                  replicate (min (length (snd d_fake)) (length (snd d_real)))
                    (LossComputed ''L1_loss'')\<rparr>,
          if length (snd d_fake) < length (snd d_real) then Inl IndexError
          else if snd d_real = [] then Inl AttributeError
          else Inr (\<lparr>data = out, leaves = {GenParams}\<rparr>,
                    \<lparr>data = t_add N (t_radd N 0 l_gen) l_fm, leaves = {GenParams, DisParams}\<rparr>,
                    \<lparr>data = l_dis, leaves = {DisParams}\<rparr>,
                    [(''l_dis'', l_dis), (''l_gen'', l_gen), (''l_fm'', l_fm)])))"
  unfolding EdgeModel_process_def EdgeModel_forward_def
  apply (simp add: Let_def tensor_defs feature_matching_range)
  apply (simp add: emit_def zero_grad_def insert_commute)
  done

lemma GradientModel_process_Edge: "GradientModel_process = EdgeModel_process"
  by (simp add: fun_eq_iff GradientModel_process_def EdgeModel_process_def
      GradientModel_forward_def EdgeModel_forward_def)

lemma SRModel_upsample_frame:
  "scale_kernel s' = scale_kernel s \<Longrightarrow> config s' = config s \<Longrightarrow>
   SRModel_upsample s' x = SRModel_upsample s x"
  by (simp add: SRModel_upsample_def split: option.splits)

lemma SRModel_process_cases:
  "SRModel_process N self lr_images hr_images lr_edges hr_edges =
     (case SRModel_upsample self lr_images of
        Inl err \<Rightarrow>
          (self\<lparr>iteration := iteration self + 1, gen_grad := 0, dis_grad := 0,
                events := events self @
                  [IterationIncrement, ZeroGrad GenParams, ZeroGrad DisParams]\<rparr>,
           Inl err)
      | Inr up \<Rightarrow>
         (let out = gen_forward N (generator self) (torch_cat N up hr_edges);
              d_real = dis_forward N (discriminator self) hr_images;
              d_fake = dis_forward N (discriminator self) out;
              l_dis = t_radd N 0 (t_div N (t_add N (adversarial_loss N (fst d_real) True True)
                                                   (adversarial_loss N (fst d_fake) False True)) 2);
              l_gen = t_mul N (adversarial_loss N (fst d_fake) True False)
                        (ADV_LOSS_WEIGHT2 (config self));
              l_l1 = t_mul N (L1_loss N out hr_images) (L1_LOSS_WEIGHT (config self));
              l_content = t_mul N (content_loss N out hr_images) (CONTENT_LOSS_WEIGHT (config self));
              l_style = t_mul N (style_loss N out hr_images) (STYLE_LOSS_WEIGHT (config self))
          in (self\<lparr>iteration := iteration self + 1, gen_grad := 0, dis_grad := 0,
                    events := events self @
                      [IterationIncrement, ZeroGrad GenParams, ZeroGrad DisParams,
                       GeneratorForward, DiscriminatorForward, DiscriminatorForward,
                       LossComputed ''adversarial_loss'', LossComputed ''adversarial_loss'',
                       DiscriminatorForward, LossComputed ''adversarial_loss'',
                       LossComputed ''L1_loss'', LossComputed ''content_loss'',
                       LossComputed ''style_loss'']\<rparr>,
              Inr (\<lparr>data = out, leaves = {GenParams}\<rparr>,
                   \<lparr>data = running_sum N l_gen [l_l1, l_content, l_style],
                      leaves = {GenParams, DisParams}\<rparr>,
                   \<lparr>data = l_dis, leaves = {DisParams}\<rparr>,
                   [(''l_dis'', l_dis), (''l_gen'', l_gen), (''l_l1'', l_l1),
                    (''l_content'', l_content), (''l_style'', l_style)]))))"
proof -
  let ?s = "zero_grad DisParams (zero_grad GenParams
              (emit IterationIncrement (self\<lparr>iteration := iteration self + 1\<rparr>)))"
  have up: "SRModel_upsample ?s lr_images = SRModel_upsample self lr_images"
    by (rule SRModel_upsample_frame) simp_all
  show ?thesis
  proof (cases "SRModel_upsample self lr_images")
    case (Inl err)
    then show ?thesis
      unfolding SRModel_process_def SRModel_forward_def
      apply (simp add: Let_def up)
      apply (simp add: emit_def zero_grad_def)
      done
  next
    case (Inr u)
    then show ?thesis
      unfolding SRModel_process_def SRModel_forward_def
      apply (simp add: Let_def tensor_defs up running_sum_def)
      apply (simp add: emit_def zero_grad_def insert_commute)
      done
  qed
qed

lemma process_cases:
  "process EdgeModel = EdgeModel_process" "process GradientModel = EdgeModel_process"
  "process SRModel = SRModel_process"
  "m \<noteq> SRModel \<Longrightarrow> process m = EdgeModel_process"
  by (cases m; simp add: process_def GradientModel_process_Edge)+

lemma EdgeModel_process_returns:
  "feature_layers_ok N self lr_images hr_images lr_edges hr_edges \<Longrightarrow>
   \<exists>self' outputs gen_loss dis_loss logs.
     EdgeModel_process N self lr_images hr_images lr_edges hr_edges =
       (self', Inr (outputs, gen_loss, dis_loss, logs))"
  by (simp add: EdgeModel_process_cases feature_layers_ok_def Let_def not_less)

lemma SRModel_process_returns:
  "SRModel_upsample self lr_images = Inr up \<Longrightarrow>
   \<exists>self' outputs gen_loss dis_loss logs.
     SRModel_process N self lr_images hr_images lr_edges hr_edges =
       (self', Inr (outputs, gen_loss, dis_loss, logs))"
  by (simp add: SRModel_process_cases Let_def)

lemma EdgeModel_process_InrD:
  assumes "EdgeModel_process N self lr_images hr_images lr_edges hr_edges =
             (self', Inr (outputs, gen_loss, dis_loss, logs))"
  defines "out \<equiv> gen_forward N (generator self)
                  (torch_cat N (F_interpolate N lr_images (SCALE (config self)))
                               (F_interpolate N lr_edges (SCALE (config self))))"
  defines "rl \<equiv> dis_forward N (discriminator self) (torch_cat N hr_images hr_edges)"
  defines "fk \<equiv> dis_forward N (discriminator self) (torch_cat N hr_images out)"
  defines "l_dis \<equiv> t_radd N 0 (t_div N (t_add N (adversarial_loss N (fst rl) True True)
                                               (adversarial_loss N (fst fk) False True)) 2)"
  defines "l_gen \<equiv> t_mul N (adversarial_loss N (fst fk) True False) (ADV_LOSS_WEIGHT1 (config self))"
  defines "l_fm \<equiv> t_mul N (running_sum N (L1_loss N (snd fk ! 0) (snd rl ! 0))
                            (map (\<lambda>i. L1_loss N (snd fk ! i) (snd rl ! i)) [1..<length (snd rl)]))
                   (FM_LOSS_WEIGHT (config self))"
  shows "self' = self\<lparr>iteration := iteration self + 1, gen_grad := 0, dis_grad := 0,
                        events := events self @
                          [IterationIncrement, ZeroGrad GenParams, ZeroGrad DisParams,
                           GeneratorForward, DiscriminatorForward, DiscriminatorForward,
                           LossComputed ''adversarial_loss'', LossComputed ''adversarial_loss'',
                           DiscriminatorForward, LossComputed ''adversarial_loss''] @
                          replicate (length (snd rl)) (LossComputed ''L1_loss'')\<rparr>"
    and "outputs = \<lparr>data = out, leaves = {GenParams}\<rparr>"
    and "gen_loss = \<lparr>data = t_add N (t_radd N 0 l_gen) l_fm, leaves = {GenParams, DisParams}\<rparr>"
    and "dis_loss = \<lparr>data = l_dis, leaves = {DisParams}\<rparr>"
    and "logs = [(''l_dis'', l_dis), (''l_gen'', l_gen), (''l_fm'', l_fm)]"
    and "feature_layers_ok N self lr_images hr_images lr_edges hr_edges"
  using assms(1)
  unfolding EdgeModel_process_cases feature_layers_ok_def out_def rl_def fk_def l_dis_def l_gen_def l_fm_def
  by (simp_all add: Let_def min_def split: if_splits)

lemma SRModel_process_values:
  assumes "SRModel_process N self lr_images hr_images lr_edges hr_edges =
             (self', Inr (outputs, gen_loss, dis_loss, logs))"
  shows "iteration self' = iteration self + 1"
    and "events self' = events self @
           [IterationIncrement, ZeroGrad GenParams, ZeroGrad DisParams,
            GeneratorForward, DiscriminatorForward, DiscriminatorForward,
            LossComputed ''adversarial_loss'', LossComputed ''adversarial_loss'',
            DiscriminatorForward, LossComputed ''adversarial_loss'',
            LossComputed ''L1_loss'', LossComputed ''content_loss'',
            LossComputed ''style_loss'']"
    and "gen_grad self' = 0"
    and "leaves outputs = {GenParams}"
    and "leaves gen_loss = {GenParams, DisParams}"
    and "leaves dis_loss = {DisParams}"
    and "data dis_loss =
           t_radd N 0 (t_div N
             (t_add N (adversarial_loss N (fst (dis_forward N (discriminator self) hr_images)) True True)
                      (adversarial_loss N (fst (dis_forward N (discriminator self) (data outputs)))
                         False True)) 2)"
    and "data gen_loss =
           running_sum N
             (t_mul N (adversarial_loss N (fst (dis_forward N (discriminator self) (data outputs)))
                         True False) (ADV_LOSS_WEIGHT2 (config self)))
             [t_mul N (L1_loss N (data outputs) hr_images) (L1_LOSS_WEIGHT (config self)),
              t_mul N (content_loss N (data outputs) hr_images) (CONTENT_LOSS_WEIGHT (config self)),
              t_mul N (style_loss N (data outputs) hr_images) (STYLE_LOSS_WEIGHT (config self))]"
    and "logs =
           [(''l_dis'', data dis_loss),
            (''l_gen'', t_mul N (adversarial_loss N (fst (dis_forward N (discriminator self) (data outputs)))
                          True False) (ADV_LOSS_WEIGHT2 (config self))),
            (''l_l1'', t_mul N (L1_loss N (data outputs) hr_images) (L1_LOSS_WEIGHT (config self))),
            (''l_content'', t_mul N (content_loss N (data outputs) hr_images)
                              (CONTENT_LOSS_WEIGHT (config self))),
            (''l_style'', t_mul N (style_loss N (data outputs) hr_images)
                            (STYLE_LOSS_WEIGHT (config self)))]"
    and "\<exists>up. SRModel_upsample self lr_images = Inr up"
  using assms unfolding SRModel_process_cases
  by (auto simp: Let_def split: sum.splits)

lemma process_state:
  "iteration (fst (process m N self lr_images hr_images lr_guide hr_guide)) = iteration self + 1"
  "\<exists>rest. events (fst (process m N self lr_images hr_images lr_guide hr_guide)) =
            events self @ [IterationIncrement, ZeroGrad GenParams, ZeroGrad DisParams] @ rest \<and>
          IterationIncrement \<notin> set rest"
  "gen_grad (fst (process m N self lr_images hr_images lr_guide hr_guide)) = 0"
  "dis_grad (fst (process m N self lr_images hr_images lr_guide hr_guide)) = 0"
  "generator (fst (process m N self lr_images hr_images lr_guide hr_guide)) = generator self"
  "discriminator (fst (process m N self lr_images hr_images lr_guide hr_guide)) = discriminator self"
  by (cases m; simp add: process_def GradientModel_process_Edge EdgeModel_process_cases
      SRModel_process_cases Let_def split: sum.splits)+



lemma forward_iteration:
  "iteration (snd (EdgeModel_forward N self a b)) = iteration self"
  "iteration (snd (GradientModel_forward N self a b)) = iteration self"
  "SRModel_forward N self a b = Inr (t, s2) \<Longrightarrow> iteration s2 = iteration self"
  by (auto simp: EdgeModel_forward_def GradientModel_forward_def SRModel_forward_def
      call_generator_def Let_def split: sum.splits)

lemma init_iteration:
  "iteration (EdgeModel_init cfg g0 d0 o1 o2) = 0"
  "iteration (GradientModel_init cfg g0 d0 o1 o2) = 0"
  "SRModel_init cfg g0 d0 o1 o2 = Inr c \<Longrightarrow> iteration c = 0"
  by (auto simp: EdgeModel_init_def GradientModel_init_def SRModel_init_def BaseModel_init_def
      split: sum.splits)

lemma backward_iteration: "iteration (EdgeModel_backward N self gl dl) = iteration self"
  by (simp add: EdgeModel_backward_def step_defs)

lemma process_returned_events:
  assumes "process m N self lr_images hr_images lr_guide hr_guide =
             (self', Inr (outputs, gen_loss, dis_loss, logs))"
  shows "\<exists>rest. events self' =
              events self @ [IterationIncrement, ZeroGrad GenParams, ZeroGrad DisParams,
                             GeneratorForward] @ rest \<and>
            IterationIncrement \<notin> set rest"
proof (cases "m = SRModel")
  case False
  with assms have "EdgeModel_process N self lr_images hr_images lr_guide hr_guide =
      (self', Inr (outputs, gen_loss, dis_loss, logs))"
    by (simp add: process_cases(4))
  note r = EdgeModel_process_InrD [OF this]
  show ?thesis by (simp add: r(1))
next
  case True
  with assms have "SRModel_process N self lr_images hr_images lr_guide hr_guide =
      (self', Inr (outputs, gen_loss, dis_loss, logs))"
    by (simp add: process_cases(3))
  note r = SRModel_process_values [OF this]
  show ?thesis by (simp add: r(2))
qed

lemma example_config_weights:
  "config example_controller = example_config" "config example_sr_controller = example_config"
  "config example_gradient_controller = example_config"
  "ADV_LOSS_WEIGHT1 example_config = 1 / 10" "ADV_LOSS_WEIGHT2 example_config = 1"
  "FM_LOSS_WEIGHT example_config = 10" "L1_LOSS_WEIGHT example_config = 1"
  "CONTENT_LOSS_WEIGHT example_config = 1 / 10" "STYLE_LOSS_WEIGHT example_config = 250"
  by (simp_all add: example_controller_def example_sr_controller_def BaseModel_init_def
      example_gradient_controller_def GradientModel_init_def example_config_def)

lemma example_nets_values:
  "dis_forward example_nets p x = (x, [x, x])"
  "adversarial_loss example_nets x True d = 1"
  "adversarial_loss example_nets x False d = 3"
  "L1_loss example_nets x y = 2"
  "content_loss example_nets x y = 4"
  "style_loss example_nets x y = 5"
  "t_add example_nets a b = a + b"
  "t_radd example_nets r b = r + b"
  "t_mul example_nets a w = a * w"
  "t_div example_nets a w = a / w"
  by (simp_all add: example_nets_def)

lemma upt_1_2: "[Suc 0..<2] = [Suc 0]"
  by (simp add: numeral_2_eq_2)

lemma example_sr_upsample:
  "\<exists>u. SRModel_upsample example_sr_controller example_image = Inr u"
  by (simp add: SRModel_upsample_def example_sr_controller_def conv_transpose2d_def
      example_config_def BaseModel_init_def example_image_def)

lemma example_gray_upsample:
  "SRModel_upsample example_sr_controller example_gray = Inl RuntimeError"
  by (simp add: SRModel_upsample_def example_sr_controller_def conv_transpose2d_def
      example_config_def BaseModel_init_def example_gray_def)

lemma example_iterations:
  "iteration example_controller = 0" "iteration example_gradient_controller = 0"
  "iteration example_sr_controller = 0"
  by (simp_all add: example_controller_def example_gradient_controller_def
      example_sr_controller_def GradientModel_init_def BaseModel_init_def)

subsection \<open>The claims about a training step\<close>

text \<open>
  Claim C1. In every controller, \<open>backward\<close> makes its four calls in this order:
  backward of the discriminator loss, step of the discriminator optimizer, backward of
  the generator loss, step of the generator optimizer. So the discriminator step sees
  the gradient of the discriminator loss only, and the generator step sees what both
  backward passes accumulated on the generator parameters.
\<close>

theorem backward_two_phase:
  "events (backward m N self gen_loss dis_loss) =
     events self @ [Backward ''dis_loss'', OptimizerStep DisParams,
                    Backward ''gen_loss'', OptimizerStep GenParams] \<and>
   discriminator (backward m N self gen_loss dis_loss) =
     snd (adam_step N (dis_optimizer self) (discriminator self)
            (accumulate N DisParams dis_loss (dis_grad self))) \<and>
   generator (backward m N self gen_loss dis_loss) =
     snd (adam_step N (gen_optimizer self) (generator self)
            (accumulate N GenParams gen_loss
               (accumulate N GenParams dis_loss (gen_grad self))))"
  by (simp only: backward_Edge EdgeModel_backward_events EdgeModel_backward_discriminator
      EdgeModel_backward_generator)



text \<open>
  Claim C3. Under the same conditions a step returns, and then the discriminator loss
  is Python's \<open>0\<close> plus half the sum of the adversarial loss of the real pair (target
  real) and of the fake pair (target fake), and the generator loss is the running sum,
  from \<open>0\<close>, of its raw terms each times its weight: adversarial and feature matching
  for the Edge and Gradient controllers, adversarial, L1, content and style for the SR
  controller. This holds whatever the tensor arithmetic is. Where adding a tensor to
  the number \<open>0\<close> gives the tensor back, the losses are the half sum and the weighted
  sum themselves.
\<close>

theorem loss_composition:
  "(m \<noteq> SRModel \<and> feature_layers_ok N self lr_images hr_images lr_guide hr_guide \<longrightarrow>
    (\<exists>s1 out1 gen1 dis1 logs1.
       process m N self lr_images hr_images lr_guide hr_guide =
         (s1, Inr (out1, gen1, dis1, logs1)))) \<and>
   (SRModel_upsample self lr_images = Inr up \<longrightarrow>
    (\<exists>s1 out1 gen1 dis1 logs1.
       process SRModel N self lr_images hr_images lr_guide hr_guide =
         (s1, Inr (out1, gen1, dis1, logs1)))) \<and>
   (m \<noteq> SRModel \<and>
    process m N self lr_images hr_images lr_guide hr_guide =
      (self', Inr (outputs, gen_loss, dis_loss, logs)) \<longrightarrow>
    (let d_real = dis_forward N (discriminator self) (torch_cat N hr_images hr_guide);
         d_fake = dis_forward N (discriminator self) (torch_cat N hr_images (data outputs));
         half = t_div N (t_add N (adversarial_loss N (fst d_real) True True)
                                 (adversarial_loss N (fst d_fake) False True)) 2;
         l_gen = t_mul N (adversarial_loss N (fst d_fake) True False)
                   (ADV_LOSS_WEIGHT1 (config self));
         fm = (\<lambda>i. L1_loss N (snd d_fake ! i) (snd d_real ! i));
         l_fm = t_mul N (running_sum N (fm 0) (map fm [1..<length (snd d_real)]))
                  (FM_LOSS_WEIGHT (config self))
     in data dis_loss = t_radd N 0 half \<and>
        data gen_loss = running_sum N l_gen [l_fm] \<and>
        ((\<forall>x. t_radd N 0 x = x) \<longrightarrow>
           data dis_loss = half \<and>
           data gen_loss =
             t_add N l_gen
               (t_mul N (foldl (t_add N) (fm 0) (map fm [1..<length (snd d_real)]))
                  (FM_LOSS_WEIGHT (config self)))))) \<and>
   (process SRModel N self lr_images hr_images lr_guide hr_guide =
      (self', Inr (outputs, gen_loss, dis_loss, logs)) \<longrightarrow>
    (let d_real = dis_forward N (discriminator self) hr_images;
         d_fake = dis_forward N (discriminator self) (data outputs);
         half = t_div N (t_add N (adversarial_loss N (fst d_real) True True)
                                 (adversarial_loss N (fst d_fake) False True)) 2;
         l_gen = t_mul N (adversarial_loss N (fst d_fake) True False)
                   (ADV_LOSS_WEIGHT2 (config self));
         l_l1 = t_mul N (L1_loss N (data outputs) hr_images) (L1_LOSS_WEIGHT (config self));
         l_content = t_mul N (content_loss N (data outputs) hr_images)
                       (CONTENT_LOSS_WEIGHT (config self));
         l_style = t_mul N (style_loss N (data outputs) hr_images)
                     (STYLE_LOSS_WEIGHT (config self))
     in data dis_loss = t_radd N 0 half \<and>
        data gen_loss = running_sum N l_gen [l_l1, l_content, l_style] \<and>
        ((\<forall>x. t_radd N 0 x = x) \<longrightarrow>
           data dis_loss = half \<and>
           data gen_loss = t_add N (t_add N (t_add N l_gen l_l1) l_content) l_style)))"
proof -
  have ret1: "\<exists>s1 out1 gen1 dis1 logs1.
       process m N self lr_images hr_images lr_guide hr_guide =
         (s1, Inr (out1, gen1, dis1, logs1))"
    if "m \<noteq> SRModel \<and> feature_layers_ok N self lr_images hr_images lr_guide hr_guide"
  proof -
    from that have ne: "m \<noteq> SRModel" by simp
    from that EdgeModel_process_returns [of N self lr_images hr_images lr_guide hr_guide]
    show ?thesis by (simp add: process_cases(4) [OF ne])
  qed
  have ret2: "\<exists>s1 out1 gen1 dis1 logs1.
       process SRModel N self lr_images hr_images lr_guide hr_guide =
         (s1, Inr (out1, gen1, dis1, logs1))"
    if "SRModel_upsample self lr_images = Inr up"
    using SRModel_process_returns [OF that] by (simp add: process_cases(3))
  have edge: "(let d_real = dis_forward N (discriminator self) (torch_cat N hr_images hr_guide);
         d_fake = dis_forward N (discriminator self) (torch_cat N hr_images (data outputs));
         half = t_div N (t_add N (adversarial_loss N (fst d_real) True True)
                                 (adversarial_loss N (fst d_fake) False True)) 2;
         l_gen = t_mul N (adversarial_loss N (fst d_fake) True False)
                   (ADV_LOSS_WEIGHT1 (config self));
         fm = (\<lambda>i. L1_loss N (snd d_fake ! i) (snd d_real ! i));
         l_fm = t_mul N (running_sum N (fm 0) (map fm [1..<length (snd d_real)]))
                  (FM_LOSS_WEIGHT (config self))
     in data dis_loss = t_radd N 0 half \<and>
        data gen_loss = running_sum N l_gen [l_fm] \<and>
        ((\<forall>x. t_radd N 0 x = x) \<longrightarrow>
           data dis_loss = half \<and>
           data gen_loss =
             t_add N l_gen
               (t_mul N (foldl (t_add N) (fm 0) (map fm [1..<length (snd d_real)]))
                  (FM_LOSS_WEIGHT (config self)))))"
    if "m \<noteq> SRModel \<and>
    process m N self lr_images hr_images lr_guide hr_guide =
      (self', Inr (outputs, gen_loss, dis_loss, logs))"
  proof -
    from that have ne: "m \<noteq> SRModel" by simp
    from that have "EdgeModel_process N self lr_images hr_images lr_guide hr_guide =
      (self', Inr (outputs, gen_loss, dis_loss, logs))"
      by (simp add: process_cases(4) [OF ne])
    note r = EdgeModel_process_InrD [OF this]
    show ?thesis
      by (simp add: Let_def r(2,3,4) running_sum_def)
  qed
  have sr: "(let d_real = dis_forward N (discriminator self) hr_images;
         d_fake = dis_forward N (discriminator self) (data outputs);
         half = t_div N (t_add N (adversarial_loss N (fst d_real) True True)
                                 (adversarial_loss N (fst d_fake) False True)) 2;
         l_gen = t_mul N (adversarial_loss N (fst d_fake) True False)
                   (ADV_LOSS_WEIGHT2 (config self));
         l_l1 = t_mul N (L1_loss N (data outputs) hr_images) (L1_LOSS_WEIGHT (config self));
         l_content = t_mul N (content_loss N (data outputs) hr_images)
                       (CONTENT_LOSS_WEIGHT (config self));
         l_style = t_mul N (style_loss N (data outputs) hr_images)
                     (STYLE_LOSS_WEIGHT (config self))
     in data dis_loss = t_radd N 0 half \<and>
        data gen_loss = running_sum N l_gen [l_l1, l_content, l_style] \<and>
        ((\<forall>x. t_radd N 0 x = x) \<longrightarrow>
           data dis_loss = half \<and>
           data gen_loss = t_add N (t_add N (t_add N l_gen l_l1) l_content) l_style))"
    if "process SRModel N self lr_images hr_images lr_guide hr_guide =
      (self', Inr (outputs, gen_loss, dis_loss, logs))"
  proof -
    from that have "SRModel_process N self lr_images hr_images lr_guide hr_guide =
      (self', Inr (outputs, gen_loss, dis_loss, logs))"
      by (simp add: process_cases(3))
    note r = SRModel_process_values [OF this]
    show ?thesis
      using r(7,8) by (simp add: Let_def running_sum_def)
  qed
  from ret1 ret2 edge sr show ?thesis by blast
qed

theorem loss_composition_witness:
  "(\<exists>s out g d l.
      process EdgeModel example_nets example_controller
        example_image example_image example_image example_image = (s, Inr (out, g, d, l)) \<and>
      data d = 2 \<and> data g = 401 / 10) \<and>
   (\<exists>s out g d l.
      process GradientModel example_nets example_gradient_controller
        example_image example_image example_image example_image = (s, Inr (out, g, d, l)) \<and>
      data d = 2 \<and> data g = 401 / 10) \<and>
   (\<exists>s out g d l.
      process SRModel example_nets example_sr_controller
        example_image example_image example_image example_image = (s, Inr (out, g, d, l)) \<and>
      data d = 2 \<and> data g = 12534 / 10)"
proof (intro conjI)
  show "\<exists>s out g d l.
      process EdgeModel example_nets example_controller
        example_image example_image example_image example_image = (s, Inr (out, g, d, l)) \<and>
      data d = 2 \<and> data g = 401 / 10"
  proof -
    have ok: "feature_layers_ok example_nets example_controller example_image example_image example_image example_image"
      by (simp add: feature_layers_ok_def example_nets_values)
    from loss_composition [of EdgeModel example_nets example_controller example_image example_image example_image example_image] ok
    obtain s out g d l where r: "process EdgeModel example_nets example_controller
        example_image example_image example_image example_image = (s, Inr (out, g, d, l))"
      by blast
    have "data d = 2 \<and> data g = 401 / 10"
      using loss_composition [of EdgeModel example_nets example_controller example_image example_image example_image example_image _ s out g d l] r
      by (simp add: Let_def example_nets_values example_config_weights upt_1_2 running_sum_def)
    with r show ?thesis by blast
  qed
next
  show "\<exists>s out g d l.
      process GradientModel example_nets example_gradient_controller
        example_image example_image example_image example_image = (s, Inr (out, g, d, l)) \<and>
      data d = 2 \<and> data g = 401 / 10"
  proof -
    have ok: "feature_layers_ok example_nets example_gradient_controller example_image example_image example_image example_image"
      by (simp add: feature_layers_ok_def example_nets_values)
    from loss_composition [of GradientModel example_nets example_gradient_controller example_image example_image example_image example_image] ok
    obtain s out g d l where r: "process GradientModel example_nets example_gradient_controller
        example_image example_image example_image example_image = (s, Inr (out, g, d, l))"
      by blast
    have "data d = 2 \<and> data g = 401 / 10"
      using loss_composition [of GradientModel example_nets example_gradient_controller example_image example_image example_image example_image _ s out g d l] r
      by (simp add: Let_def example_nets_values example_config_weights upt_1_2 running_sum_def)
    with r show ?thesis by blast
  qed
next
  show "\<exists>s out g d l.
      process SRModel example_nets example_sr_controller
        example_image example_image example_image example_image = (s, Inr (out, g, d, l)) \<and>
      data d = 2 \<and> data g = 12534 / 10"
  proof -
    from example_sr_upsample obtain u where
      u: "SRModel_upsample example_sr_controller example_image = Inr u" by blast
    from loss_composition [of SRModel example_nets example_sr_controller example_image example_image example_image example_image u] u
    obtain s out g d l where r: "process SRModel example_nets example_sr_controller
        example_image example_image example_image example_image = (s, Inr (out, g, d, l))"
      by blast
    have "data d = 2 \<and> data g = 12534 / 10"
      using loss_composition [of SRModel example_nets example_sr_controller example_image example_image example_image example_image _ s out g d l] r
      by (simp add: Let_def example_nets_values example_config_weights upt_1_2 running_sum_def)
    with r show ?thesis by blast
  qed
qed

text \<open>
  Claim C4. Under the same conditions a step returns, and its log has the entries
  \<open>l_dis\<close>, \<open>l_gen\<close>, \<open>l_fm\<close> (Edge, Gradient) or \<open>l_dis\<close>, \<open>l_gen\<close>, \<open>l_l1\<close>,
  \<open>l_content\<close>, \<open>l_style\<close> (SR), in this order; \<open>l_dis\<close> is the averaged
  discriminator loss as returned, every other entry is one weighted term of the
  generator loss, and the generator loss is their running sum in the order of the log.
\<close>

theorem loss_log_entries:
  "(m \<noteq> SRModel \<and> feature_layers_ok N self lr_images hr_images lr_guide hr_guide \<longrightarrow>
    (\<exists>s1 out1 gen1 dis1 logs1.
       process m N self lr_images hr_images lr_guide hr_guide =
         (s1, Inr (out1, gen1, dis1, logs1)))) \<and>
   (SRModel_upsample self lr_images = Inr up \<longrightarrow>
    (\<exists>s1 out1 gen1 dis1 logs1.
       process SRModel N self lr_images hr_images lr_guide hr_guide =
         (s1, Inr (out1, gen1, dis1, logs1)))) \<and>
   (m \<noteq> SRModel \<and>
    process m N self lr_images hr_images lr_guide hr_guide =
      (self', Inr (outputs, gen_loss, dis_loss, logs)) \<longrightarrow>
    (let d_real = dis_forward N (discriminator self) (torch_cat N hr_images hr_guide);
         d_fake = dis_forward N (discriminator self) (torch_cat N hr_images (data outputs));
         half = t_div N (t_add N (adversarial_loss N (fst d_real) True True)
                                 (adversarial_loss N (fst d_fake) False True)) 2;
         l_gen = t_mul N (adversarial_loss N (fst d_fake) True False)
                   (ADV_LOSS_WEIGHT1 (config self));
         fm = (\<lambda>i. L1_loss N (snd d_fake ! i) (snd d_real ! i));
         l_fm = t_mul N (running_sum N (fm 0) (map fm [1..<length (snd d_real)]))
                  (FM_LOSS_WEIGHT (config self))
     in logs = [(''l_dis'', t_radd N 0 half), (''l_gen'', l_gen), (''l_fm'', l_fm)]) \<and>
    snd (logs ! 0) = data dis_loss \<and>
    data gen_loss = running_sum N (snd (logs ! 1)) (map snd (drop 2 logs))) \<and>
   (process SRModel N self lr_images hr_images lr_guide hr_guide =
      (self', Inr (outputs, gen_loss, dis_loss, logs)) \<longrightarrow>
    (let d_real = dis_forward N (discriminator self) hr_images;
         d_fake = dis_forward N (discriminator self) (data outputs);
         half = t_div N (t_add N (adversarial_loss N (fst d_real) True True)
                                 (adversarial_loss N (fst d_fake) False True)) 2;
         l_gen = t_mul N (adversarial_loss N (fst d_fake) True False)
                   (ADV_LOSS_WEIGHT2 (config self));
         l_l1 = t_mul N (L1_loss N (data outputs) hr_images) (L1_LOSS_WEIGHT (config self));
         l_content = t_mul N (content_loss N (data outputs) hr_images)
                       (CONTENT_LOSS_WEIGHT (config self));
         l_style = t_mul N (style_loss N (data outputs) hr_images)
                     (STYLE_LOSS_WEIGHT (config self))
     in logs = [(''l_dis'', t_radd N 0 half), (''l_gen'', l_gen), (''l_l1'', l_l1),
               (''l_content'', l_content), (''l_style'', l_style)]) \<and>
    snd (logs ! 0) = data dis_loss \<and>
    data gen_loss = running_sum N (snd (logs ! 1)) (map snd (drop 2 logs)))"
proof -
  have ret1: "\<exists>s1 out1 gen1 dis1 logs1.
       process m N self lr_images hr_images lr_guide hr_guide =
         (s1, Inr (out1, gen1, dis1, logs1))"
    if "m \<noteq> SRModel \<and> feature_layers_ok N self lr_images hr_images lr_guide hr_guide"
  proof -
    from that have ne: "m \<noteq> SRModel" by simp
    from that EdgeModel_process_returns [of N self lr_images hr_images lr_guide hr_guide]
    show ?thesis by (simp add: process_cases(4) [OF ne])
  qed
  have ret2: "\<exists>s1 out1 gen1 dis1 logs1.
       process SRModel N self lr_images hr_images lr_guide hr_guide =
         (s1, Inr (out1, gen1, dis1, logs1))"
    if "SRModel_upsample self lr_images = Inr up"
    using SRModel_process_returns [OF that] by (simp add: process_cases(3))
  have edge: "(let d_real = dis_forward N (discriminator self) (torch_cat N hr_images hr_guide);
         d_fake = dis_forward N (discriminator self) (torch_cat N hr_images (data outputs));
         half = t_div N (t_add N (adversarial_loss N (fst d_real) True True)
                                 (adversarial_loss N (fst d_fake) False True)) 2;
         l_gen = t_mul N (adversarial_loss N (fst d_fake) True False)
                   (ADV_LOSS_WEIGHT1 (config self));
         fm = (\<lambda>i. L1_loss N (snd d_fake ! i) (snd d_real ! i));
         l_fm = t_mul N (running_sum N (fm 0) (map fm [1..<length (snd d_real)]))
                  (FM_LOSS_WEIGHT (config self))
     in logs = [(''l_dis'', t_radd N 0 half), (''l_gen'', l_gen), (''l_fm'', l_fm)]) \<and>
    snd (logs ! 0) = data dis_loss \<and>
    data gen_loss = running_sum N (snd (logs ! 1)) (map snd (drop 2 logs))"
    if "m \<noteq> SRModel \<and>
    process m N self lr_images hr_images lr_guide hr_guide =
      (self', Inr (outputs, gen_loss, dis_loss, logs))"
  proof -
    from that have ne: "m \<noteq> SRModel" by simp
    from that have "EdgeModel_process N self lr_images hr_images lr_guide hr_guide =
      (self', Inr (outputs, gen_loss, dis_loss, logs))"
      by (simp add: process_cases(4) [OF ne])
    note r = EdgeModel_process_InrD [OF this]
    show ?thesis
      by (simp add: Let_def r(2,3,4,5) running_sum_def)
  qed
  have sr: "(let d_real = dis_forward N (discriminator self) hr_images;
         d_fake = dis_forward N (discriminator self) (data outputs);
         half = t_div N (t_add N (adversarial_loss N (fst d_real) True True)
                                 (adversarial_loss N (fst d_fake) False True)) 2;
         l_gen = t_mul N (adversarial_loss N (fst d_fake) True False)
                   (ADV_LOSS_WEIGHT2 (config self));
         l_l1 = t_mul N (L1_loss N (data outputs) hr_images) (L1_LOSS_WEIGHT (config self));
         l_content = t_mul N (content_loss N (data outputs) hr_images)
                       (CONTENT_LOSS_WEIGHT (config self));
         l_style = t_mul N (style_loss N (data outputs) hr_images)
                     (STYLE_LOSS_WEIGHT (config self))
     in logs = [(''l_dis'', t_radd N 0 half), (''l_gen'', l_gen), (''l_l1'', l_l1),
               (''l_content'', l_content), (''l_style'', l_style)]) \<and>
    snd (logs ! 0) = data dis_loss \<and>
    data gen_loss = running_sum N (snd (logs ! 1)) (map snd (drop 2 logs))"
    if "process SRModel N self lr_images hr_images lr_guide hr_guide =
      (self', Inr (outputs, gen_loss, dis_loss, logs))"
  proof -
    from that have "SRModel_process N self lr_images hr_images lr_guide hr_guide =
      (self', Inr (outputs, gen_loss, dis_loss, logs))"
      by (simp add: process_cases(3))
    note r = SRModel_process_values [OF this]
    show ?thesis
      using r(7,8,9) by (simp add: Let_def running_sum_def)
  qed
  from ret1 ret2 edge sr show ?thesis by blast
qed

theorem loss_log_entries_witness:
  "(\<exists>s out g d l.
      process EdgeModel example_nets example_controller
        example_image example_image example_image example_image = (s, Inr (out, g, d, l)) \<and>
      l = [(''l_dis'', 2), (''l_gen'', 1 / 10), (''l_fm'', 40)]) \<and>
   (\<exists>s out g d l.
      process GradientModel example_nets example_gradient_controller
        example_image example_image example_image example_image = (s, Inr (out, g, d, l)) \<and>
      l = [(''l_dis'', 2), (''l_gen'', 1 / 10), (''l_fm'', 40)]) \<and>
   (\<exists>s out g d l.
      process SRModel example_nets example_sr_controller
        example_image example_image example_image example_image = (s, Inr (out, g, d, l)) \<and>
      l = [(''l_dis'', 2), (''l_gen'', 1), (''l_l1'', 2), (''l_content'', 4 / 10),
           (''l_style'', 1250)])"
proof (intro conjI)
  show "\<exists>s out g d l.
      process EdgeModel example_nets example_controller
        example_image example_image example_image example_image = (s, Inr (out, g, d, l)) \<and>
      l = [(''l_dis'', 2), (''l_gen'', 1 / 10), (''l_fm'', 40)]"
  proof -
    have ok: "feature_layers_ok example_nets example_controller example_image example_image example_image example_image"
      by (simp add: feature_layers_ok_def example_nets_values)
    from loss_log_entries [of EdgeModel example_nets example_controller example_image example_image example_image example_image] ok
    obtain s out g d l where r: "process EdgeModel example_nets example_controller
        example_image example_image example_image example_image = (s, Inr (out, g, d, l))"
      by blast
    have "l = [(''l_dis'', 2), (''l_gen'', 1 / 10), (''l_fm'', 40)]"
      using loss_log_entries [of EdgeModel example_nets example_controller example_image example_image example_image example_image _ s out g d l] r
      by (simp add: Let_def example_nets_values example_config_weights upt_1_2 running_sum_def)
    with r show ?thesis by blast
  qed
next
  show "\<exists>s out g d l.
      process GradientModel example_nets example_gradient_controller
        example_image example_image example_image example_image = (s, Inr (out, g, d, l)) \<and>
      l = [(''l_dis'', 2), (''l_gen'', 1 / 10), (''l_fm'', 40)]"
  proof -
    have ok: "feature_layers_ok example_nets example_gradient_controller example_image example_image example_image example_image"
      by (simp add: feature_layers_ok_def example_nets_values)
    from loss_log_entries [of GradientModel example_nets example_gradient_controller example_image example_image example_image example_image] ok
    obtain s out g d l where r: "process GradientModel example_nets example_gradient_controller
        example_image example_image example_image example_image = (s, Inr (out, g, d, l))"
      by blast
    have "l = [(''l_dis'', 2), (''l_gen'', 1 / 10), (''l_fm'', 40)]"
      using loss_log_entries [of GradientModel example_nets example_gradient_controller example_image example_image example_image example_image _ s out g d l] r
      by (simp add: Let_def example_nets_values example_config_weights upt_1_2 running_sum_def)
    with r show ?thesis by blast
  qed
next
  show "\<exists>s out g d l.
      process SRModel example_nets example_sr_controller
        example_image example_image example_image example_image = (s, Inr (out, g, d, l)) \<and>
      l = [(''l_dis'', 2), (''l_gen'', 1), (''l_l1'', 2), (''l_content'', 4 / 10),
           (''l_style'', 1250)]"
  proof -
    from example_sr_upsample obtain u where
      u: "SRModel_upsample example_sr_controller example_image = Inr u" by blast
    from loss_log_entries [of SRModel example_nets example_sr_controller example_image example_image example_image example_image u] u
    obtain s out g d l where r: "process SRModel example_nets example_sr_controller
        example_image example_image example_image example_image = (s, Inr (out, g, d, l))"
      by blast
    have "l = [(''l_dis'', 2), (''l_gen'', 1), (''l_l1'', 2), (''l_content'', 4 / 10),
           (''l_style'', 1250)]"
      using loss_log_entries [of SRModel example_nets example_sr_controller example_image example_image example_image example_image _ s out g d l] r
      by (simp add: Let_def example_nets_values example_config_weights upt_1_2 running_sum_def)
    with r show ?thesis by blast
  qed
qed

text \<open>
  Claim C5. A new controller has iteration 0. Every \<open>process\<close> call, whether it
  returns or raises, leaves the counter exactly one higher, and the increment is the
  first thing it does: clearing the gradients, the generator pass of a returning call
  and all that follows come after it. \<open>backward\<close> and \<open>forward\<close> leave the counter as it
  is.
\<close>

theorem iteration_counter:
  "iteration (EdgeModel_init cfg g0 d0 o1 o2 :: ('p, 'g::monoid_add, 'o) controller) = 0 \<and>
   iteration (GradientModel_init cfg g0 d0 o1 o2 :: ('p, 'g, 'o) controller) = 0 \<and>
   (SRModel_init cfg g0 d0 o1 o2 = Inr (c :: ('p, 'g, 'o) controller) \<longrightarrow> iteration c = 0) \<and>
   iteration (fst (process m N (self :: ('p, 'g, 'o) controller)
                     lr_images hr_images lr_guide hr_guide)) = iteration self + 1 \<and>
   (\<exists>rest. events (fst (process m N self lr_images hr_images lr_guide hr_guide)) =
             events self @ [IterationIncrement, ZeroGrad GenParams, ZeroGrad DisParams] @ rest \<and>
           IterationIncrement \<notin> set rest) \<and>
   (process m N self lr_images hr_images lr_guide hr_guide =
      (self', Inr (outputs, gen_loss, dis_loss, logs)) \<longrightarrow>
    (\<exists>rest. events self' =
              events self @ [IterationIncrement, ZeroGrad GenParams, ZeroGrad DisParams,
                             GeneratorForward] @ rest \<and>
            IterationIncrement \<notin> set rest)) \<and>
   iteration (backward m N self gl dl) = iteration self \<and>
   iteration (snd (EdgeModel_forward N self a b)) = iteration self \<and>
   iteration (snd (GradientModel_forward N self a b)) = iteration self \<and>
   (SRModel_forward N self a b = Inr (t, s2) \<longrightarrow> iteration s2 = iteration self)"
  using process_state(1,2) [of m N self lr_images hr_images lr_guide hr_guide]
    process_returned_events [of m N self lr_images hr_images lr_guide hr_guide
      self' outputs gen_loss dis_loss logs]
  by (simp add: init_iteration forward_iteration backward_Edge backward_iteration)

theorem iteration_counter_witness:
  "SRModel_init example_config 5 6 () () = Inr example_sr_controller \<and>
   iteration example_sr_controller = 0 \<and>
   iteration (fst (process EdgeModel example_nets example_controller
                     example_image example_image example_image example_image)) = 1 \<and>
   iteration (fst (process GradientModel example_nets example_gradient_controller
                     example_image example_image example_image example_image)) = 1 \<and>
   iteration (fst (process SRModel example_nets example_sr_controller
                     example_image example_image example_image example_image)) = 1 \<and>
   snd (process SRModel example_nets example_sr_controller
          example_gray example_gray example_gray example_gray) = Inl RuntimeError \<and>
   iteration (fst (process SRModel example_nets example_sr_controller
                     example_gray example_gray example_gray example_gray)) = 1 \<and>
   (\<exists>s out g d l.
      process SRModel example_nets example_sr_controller
        example_image example_image example_image example_image = (s, Inr (out, g, d, l)) \<and>
      (\<exists>rest. events s = [IterationIncrement, ZeroGrad GenParams, ZeroGrad DisParams,
                           GeneratorForward] @ rest \<and> IterationIncrement \<notin> set rest) \<and>
      iteration (backward SRModel example_nets s g d) = 1) \<and>
   (\<exists>t s2. SRModel_forward example_nets example_sr_controller example_image example_image =
              Inr (t, s2) \<and> iteration s2 = 0)"
proof -
  from example_sr_upsample obtain u where
    u: "SRModel_upsample example_sr_controller example_image = Inr u" by blast
  from SRModel_process_returns [OF u, of example_nets example_image example_image example_image]
  obtain s out g d l where
    r: "process SRModel example_nets example_sr_controller
          example_image example_image example_image example_image = (s, Inr (out, g, d, l))"
    by (auto simp: process_cases(3))
  from u obtain t s2 where
    f: "SRModel_forward example_nets example_sr_controller example_image example_image =
          Inr (t, s2)"
    by (auto simp: SRModel_forward_def Let_def call_generator_def)
  note sr = iteration_counter [of example_config 5 6 "()" "()" example_sr_controller
      SRModel example_nets example_sr_controller
      example_image example_image example_image example_image
      s out g d l g d example_image example_image t s2]
  note edge = iteration_counter [of example_config 5 6 "()" "()" example_sr_controller
      EdgeModel example_nets example_controller
      example_image example_image example_image example_image
      s out g d l g d example_image example_image t s2]
  note grad = iteration_counter [of example_config 5 6 "()" "()" example_sr_controller
      GradientModel example_nets example_gradient_controller
      example_image example_image example_image example_image
      s out g d l g d example_image example_image t s2]
  note gray = iteration_counter [of example_config 5 6 "()" "()" example_sr_controller
      SRModel example_nets example_sr_controller
      example_gray example_gray example_gray example_gray
      s out g d l g d example_image example_image t s2]
  note bw = iteration_counter [of example_config 5 6 "()" "()" example_sr_controller
      SRModel example_nets s
      example_image example_image example_image example_image
      s out g d l g d example_image example_image t s2]
  have i0: "iteration example_sr_controller = 0" using sr example_sr_init by blast
  have e0: "events example_sr_controller = []"
    by (simp add: example_sr_controller_def BaseModel_init_def)
  have a: "iteration (fst (process EdgeModel example_nets example_controller
                     example_image example_image example_image example_image)) = 1"
    using edge by (simp add: example_iterations)
  have b: "iteration (fst (process GradientModel example_nets example_gradient_controller
                     example_image example_image example_image example_image)) = 1"
    using grad by (simp add: example_iterations)
  have c: "iteration (fst (process SRModel example_nets example_sr_controller
                     example_image example_image example_image example_image)) = 1"
    using sr by (simp add: example_iterations)
  have g1: "snd (process SRModel example_nets example_sr_controller
          example_gray example_gray example_gray example_gray) = Inl RuntimeError"
    by (simp add: process_cases(3) SRModel_process_cases example_gray_upsample)
  have g2: "iteration (fst (process SRModel example_nets example_sr_controller
                     example_gray example_gray example_gray example_gray)) = 1"
    using gray by (simp add: example_iterations)
  have ev: "\<exists>rest. events s = [IterationIncrement, ZeroGrad GenParams, ZeroGrad DisParams,
                           GeneratorForward] @ rest \<and> IterationIncrement \<notin> set rest"
    using sr r by (simp add: e0)
  have "iteration s = 1" using c r by simp
  moreover have "iteration (backward SRModel example_nets s g d) = iteration s"
    using bw by blast
  ultimately have bk: "iteration (backward SRModel example_nets s g d) = 1" by simp
  have f2: "iteration s2 = 0" using sr f i0 by auto
  from r ev bk have p1: "\<exists>s out g d l.
      process SRModel example_nets example_sr_controller
        example_image example_image example_image example_image = (s, Inr (out, g, d, l)) \<and>
      (\<exists>rest. events s = [IterationIncrement, ZeroGrad GenParams, ZeroGrad DisParams,
                           GeneratorForward] @ rest \<and> IterationIncrement \<notin> set rest) \<and>
      iteration (backward SRModel example_nets s g d) = 1" by blast
  from f f2 have p2: "\<exists>t s2. SRModel_forward example_nets example_sr_controller
      example_image example_image = Inr (t, s2) \<and> iteration s2 = 0" by blast
  from example_sr_init i0 a b c g1 g2 p1 p2 show ?thesis by blast
qed

section \<open>The fixed upsampling of SRModel\<close>

lemma sum_list_delta:
  fixes f :: "nat \<Rightarrow> real"
  shows "(\<Sum>i\<leftarrow>[0..<n]. if i = a then f i else 0) = (if a < n then f a else 0)"
  by (induction n) auto

lemma sum_list_upt_cong:
  "(\<And>i. i < n \<Longrightarrow> f i = g i) \<Longrightarrow> (\<Sum>i\<leftarrow>[0..<n]. f i) = (\<Sum>i\<leftarrow>[0..<n]. (g i :: real))"
  by (rule arg_cong [where f = sum_list]) (simp cong: map_cong)

lemma corner_shape: "length (corner n) = n" "0 < n \<Longrightarrow> width (corner n) = n"
  by (auto simp: corner_def np_zeros_def width_def hd_conv_nth nth_list_update)

lemma corner_nth:
  "ky < n \<Longrightarrow> kx < n \<Longrightarrow> corner n ! ky ! kx = (if ky = 0 \<and> kx = 0 then 1 else 0)"
  by (auto simp: corner_def np_zeros_def nth_list_update)

lemma make_scale_kernel_Inr:
  "make_scale_kernel s = Inr k \<Longrightarrow> 0 < s \<and> k = replicate 3 [corner (nat s)]"
  by (auto simp: make_scale_kernel_def corner_def Let_def split: if_splits)

lemma mult_eq_div:
  "0 < (s::nat) \<Longrightarrow> (y = i * s) = (i = y div s \<and> s dvd y)"
  by auto

lemma conv_transpose_pixel_corner:
  assumes s: "0 < s" and H: "length p = H" and W: "width p = W"
  shows "conv_transpose_pixel s (corner s) p y x =
           (if s dvd y \<and> s dvd x \<and> y div s < H \<and> x div s < W
            then p ! (y div s) ! (x div s) else 0)"
proof -
  have inner: "(\<Sum>ky\<leftarrow>[0..<s]. \<Sum>kx\<leftarrow>[0..<s].
                  if y = i * s + ky \<and> x = j * s + kx then p ! i ! j * corner s ! ky ! kx else 0) =
               (if y = i * s \<and> x = j * s then p ! i ! j else 0)" for i j
  proof -
    have "(\<Sum>kx\<leftarrow>[0..<s].
             if y = i * s + ky \<and> x = j * s + kx then p ! i ! j * corner s ! ky ! kx else 0) =
          (if ky = 0 then (if y = i * s \<and> x = j * s then p ! i ! j else 0) else 0)"
      if "ky < s" for ky
    proof -
      have "(\<Sum>kx\<leftarrow>[0..<s].
             if y = i * s + ky \<and> x = j * s + kx then p ! i ! j * corner s ! ky ! kx else 0) =
            (\<Sum>kx\<leftarrow>[0..<s]. if kx = 0
                then (if ky = 0 \<and> y = i * s \<and> x = j * s then p ! i ! j else 0) else 0)"
        by (rule sum_list_upt_cong) (simp add: corner_nth that)
      also have "\<dots> = (if ky = 0 \<and> y = i * s \<and> x = j * s then p ! i ! j else 0)"
        using s by (simp only: sum_list_delta if_True)
      finally show ?thesis by simp
    qed
    then have "(\<Sum>ky\<leftarrow>[0..<s]. \<Sum>kx\<leftarrow>[0..<s].
                  if y = i * s + ky \<and> x = j * s + kx then p ! i ! j * corner s ! ky ! kx else 0) =
          (\<Sum>ky\<leftarrow>[0..<s]. if ky = 0 then (if y = i * s \<and> x = j * s then p ! i ! j else 0) else 0)"
      by (rule sum_list_upt_cong)
    also have "\<dots> = (if y = i * s \<and> x = j * s then p ! i ! j else 0)"
      using s by (simp only: sum_list_delta if_True)
    finally show ?thesis .
  qed
  have cols: "(\<Sum>j\<leftarrow>[0..<W]. if y = i * s \<and> x = j * s then p ! i ! j else 0) =
              (if y = i * s \<and> s dvd x \<and> x div s < W then p ! i ! (x div s) else 0)" for i
  proof -
    have "(\<Sum>j\<leftarrow>[0..<W]. if y = i * s \<and> x = j * s then p ! i ! j else 0) =
          (\<Sum>j\<leftarrow>[0..<W]. if j = x div s
               then (if y = i * s \<and> s dvd x then p ! i ! j else 0) else 0)"
      by (rule sum_list_upt_cong) (use s in \<open>auto simp: mult_eq_div\<close>)
    then show ?thesis by (simp only: sum_list_delta) simp
  qed
  have rows: "(\<Sum>i\<leftarrow>[0..<H]. if y = i * s \<and> s dvd x \<and> x div s < W then p ! i ! (x div s) else 0) =
              (if s dvd y \<and> s dvd x \<and> y div s < H \<and> x div s < W
               then p ! (y div s) ! (x div s) else 0)"
  proof -
    have "(\<Sum>i\<leftarrow>[0..<H]. if y = i * s \<and> s dvd x \<and> x div s < W then p ! i ! (x div s) else 0) =
          (\<Sum>i\<leftarrow>[0..<H]. if i = y div s
               then (if s dvd y \<and> s dvd x \<and> x div s < W then p ! i ! (x div s) else 0) else 0)"
      by (rule sum_list_upt_cong) (use s in \<open>auto simp: mult_eq_div\<close>)
    then show ?thesis by (simp only: sum_list_delta) simp
  qed
  show ?thesis
    unfolding conv_transpose_pixel_def H W corner_shape(1) corner_shape(2) [OF s] inner cols rows ..
qed

lemma rect_width: "rect H W p \<Longrightarrow> 0 < H \<Longrightarrow> width p = W"
  by (cases p) (auto simp: rect_def width_def)

lemma conv_transpose_plane_corner:
  assumes s: "0 < s" and r: "rect H W p"
  shows "length (conv_transpose_plane s (corner s) p) = s * H"
    and "y < s * H \<Longrightarrow> length (conv_transpose_plane s (corner s) p ! y) = s * W"
    and "y < s * H \<Longrightarrow> x < s * W \<Longrightarrow>
         conv_transpose_plane s (corner s) p ! y ! x =
           (if s dvd y \<and> s dvd x then p ! (y div s) ! (x div s) else 0)"
proof -
  have H: "length p = H" using r by (simp add: rect_def)
  have oh: "nat ((int H - 1) * int s + int s) = s * H"
    by (simp add: algebra_simps nat_mult_distrib flip: of_nat_mult)
  show len: "length (conv_transpose_plane s (corner s) p) = s * H"
    by (simp add: conv_transpose_plane_def Let_def H corner_shape(1) oh)
  {
    assume y: "y < s * H"
    then have "0 < H" by (cases H) auto
    then have W: "width p = W" using r by (rule rect_width [rotated])
    have ow: "nat ((int W - 1) * int s + int s) = s * W"
      by (simp add: algebra_simps nat_mult_distrib flip: of_nat_mult)
    have row: "conv_transpose_plane s (corner s) p ! y =
                 map (\<lambda>x. conv_transpose_pixel s (corner s) p y x) [0..<s * W]"
      using y by (simp add: conv_transpose_plane_def Let_def H W corner_shape(1)
          corner_shape(2) [OF s] oh ow)
    show "length (conv_transpose_plane s (corner s) p ! y) = s * W"
      by (simp add: row)
    {
      assume x: "x < s * W"
      have dy: "y div s < H" using y s by (simp add: less_mult_imp_div_less mult.commute)
      have dx: "x div s < W" using x s by (simp add: less_mult_imp_div_less mult.commute)
      show "conv_transpose_plane s (corner s) p ! y ! x =
           (if s dvd y \<and> s dvd x then p ! (y div s) ! (x div s) else 0)"
        using x dy dx by (simp add: row conv_transpose_pixel_corner [OF s H W])
    }
  }
qed

lemma every_nth_mult:
  assumes "0 < s" and "length xs = s * n"
  shows "every_nth s xs = map (\<lambda>i. xs ! (i * s)) [0..<n]"
proof -
  have "(s * n + s - 1) div s = n"
    by (rule div_nat_eqI) (use assms(1) in simp_all)
  then show ?thesis by (simp add: every_nth_def assms(2))
qed

lemma plane_roundtrip:
  assumes s: "0 < s" and r: "rect H W p"
  shows "map (every_nth s) (every_nth s (conv_transpose_plane s (corner s) p)) = p"
proof (rule nth_equalityI)
  note c = conv_transpose_plane_corner [OF s r]
  have e: "every_nth s (conv_transpose_plane s (corner s) p) =
             map (\<lambda>i. conv_transpose_plane s (corner s) p ! (i * s)) [0..<H]"
    by (rule every_nth_mult [OF s c(1)])
  show len: "length (map (every_nth s) (every_nth s (conv_transpose_plane s (corner s) p))) = length p"
    using r by (simp add: e rect_def)
  fix i assume "i < length (map (every_nth s) (every_nth s (conv_transpose_plane s (corner s) p)))"
  then have i: "i < H" by (simp add: e)
  then have iy: "i * s < s * H" using s by (simp add: mult.commute)
  have row: "length (p ! i) = W" using r i by (simp add: rect_def)
  have "every_nth s (conv_transpose_plane s (corner s) p ! (i * s)) =
          map (\<lambda>j. conv_transpose_plane s (corner s) p ! (i * s) ! (j * s)) [0..<W]"
    by (rule every_nth_mult [OF s c(2) [OF iy]])
  also have "\<dots> = map (\<lambda>j. p ! i ! j) [0..<W]"
  proof (rule map_cong [OF refl])
    fix j assume "j \<in> set [0..<W]"
    then have "j * s < s * W" using s by (simp add: mult.commute)
    from c(3) [OF iy this] show "conv_transpose_plane s (corner s) p ! (i * s) ! (j * s) = p ! i ! j"
      using s by simp
  qed
  also have "\<dots> = p ! i" using row by (simp add: map_nth flip: row)
  finally show "map (every_nth s) (every_nth s (conv_transpose_plane s (corner s) p)) ! i = p ! i"
    using i by (simp add: e)
qed

lemma zip_replicate_left: "length ys = n \<Longrightarrow> zip (replicate n a) ys = map (Pair a) ys"
  by (induction ys arbitrary: n) auto

lemma conv_transpose2d_corner:
  assumes s: "0 < s" and sh: "image_shape H W t"
  shows "conv_transpose2d t (replicate 3 [corner (nat s)]) s 3 =
           Inr (map (map (conv_transpose_plane (nat s) (corner (nat s)))) t)"
proof -
  have "map (\<lambda>(w, p). conv_transpose_plane (nat s) (hd w) p) (zip (replicate 3 [corner (nat s)]) img) =
        map (conv_transpose_plane (nat s) (corner (nat s))) img" if "img \<in> set t" for img
  proof -
    have "length img = 3" using sh that by (simp add: image_shape_def)
    then show ?thesis by (simp add: zip_replicate_left comp_def)
  qed
  then have "map (\<lambda>img. map (\<lambda>(w, p). conv_transpose_plane (nat s) (hd w) p)
                          (zip (replicate 3 [corner (nat s)]) img)) t =
             map (map (conv_transpose_plane (nat s) (corner (nat s)))) t"
    by (simp cong: map_cong)
  moreover have "\<not> (stride_bad)" if "stride_bad = (s \<le> 0 \<or> 3 \<noteq> length (replicate 3 [corner (nat s)]) \<or>
        (\<exists>w \<in> set (replicate 3 [corner (nat s)]). length w \<noteq> 1) \<or>
        (\<exists>img \<in> set t. length img \<noteq> length (replicate 3 [corner (nat s)])))" for stride_bad
    using s sh that by (auto simp: image_shape_def)
  ultimately show ?thesis
    by (simp add: conv_transpose2d_def)
qed

lemma SRModel_init_kernel:
  "SRModel_init cfg g0 d0 o1 o2 = Inr self \<Longrightarrow>
   \<exists>k. scale_kernel self = Some k \<and> make_scale_kernel (SCALE (config self)) = Inr k"
  by (auto simp: SRModel_init_def BaseModel_init_def split: sum.splits)

text \<open>
  Claim C6. For an SR controller with scale factor \<open>s\<close> and a batch of three-channel
  images of size \<open>H \<times> W\<close>, the upsampling of \<open>forward\<close> succeeds and gives images of
  size \<open>sH \<times> sW\<close>; the pixel at \<open>(y, x)\<close> is the input pixel at \<open>(y / s, x / s)\<close> when
  \<open>s\<close> divides both \<open>y\<close> and \<open>x\<close>, and zero otherwise, so a non-zero pixel sits at
  coordinates that are multiples of \<open>s\<close>; taking every \<open>s\<close>-th row and column gives the
  input back.
\<close>

theorem SR_upsample_zero_insertion:
  assumes k: "scale_kernel self = Some k"
    and mk: "make_scale_kernel (SCALE (config self)) = Inr k"
    and sh: "image_shape H W lr_images"
    and s: "s = nat (SCALE (config self))"
  shows "\<exists>up. SRModel_upsample self lr_images = Inr up \<and>
           length up = length lr_images \<and>
           image_shape (s * H) (s * W) up \<and>
           (\<forall>n<length up. \<forall>c<3. \<forall>y<s * H. \<forall>x<s * W.
               up ! n ! c ! y ! x =
                 (if s dvd y \<and> s dvd x then lr_images ! n ! c ! (y div s) ! (x div s) else 0)) \<and>
           (\<forall>n<length up. \<forall>c<3. \<forall>y<s * H. \<forall>x<s * W.
               up ! n ! c ! y ! x \<noteq> 0 \<longrightarrow> y mod s = 0 \<and> x mod s = 0) \<and>
           downsample s up = lr_images"
proof -
  from make_scale_kernel_Inr [OF mk]
  have pos: "0 < SCALE (config self)" and kk: "k = replicate 3 [corner s]"
    by (simp_all add: s)
  have s0: "0 < s" using pos by (simp add: s)
  let ?pl = "conv_transpose_plane s (corner s)"
  let ?up = "map (map ?pl) lr_images"
  have up: "SRModel_upsample self lr_images = Inr ?up"
    using conv_transpose2d_corner [OF pos sh]
    by (simp add: SRModel_upsample_def k kk s)
  have img: "length (lr_images ! n) = 3" and pl: "rect H W (lr_images ! n ! c)"
    if "n < length lr_images" "c < 3" for n c
  proof -
    have m: "lr_images ! n \<in> set lr_images" using that(1) by simp
    with sh show l: "length (lr_images ! n) = 3" by (simp add: image_shape_def)
    then have "lr_images ! n ! c \<in> set (lr_images ! n)" using that(2) by simp
    with sh m show "rect H W (lr_images ! n ! c)" by (simp add: image_shape_def)
  qed
  have shape: "image_shape (s * H) (s * W) ?up"
    unfolding image_shape_def
  proof (intro ballI conjI)
    fix img assume "img \<in> set ?up"
    then obtain src where src: "src \<in> set lr_images" "img = map ?pl src" by auto
    then have l3: "length src = 3" and r: "\<forall>p \<in> set src. rect H W p"
      using sh by (auto simp: image_shape_def)
    show "length img = 3" by (simp add: src(2) l3)
    fix q assume "q \<in> set img"
    then obtain p where p: "p \<in> set src" "q = ?pl p" using src(2) by auto
    then have rp: "rect H W p" using r by blast
    note c = conv_transpose_plane_corner [OF s0 rp]
    show "rect (s * H) (s * W) q"
      unfolding rect_def p(2)
    proof (intro conjI ballI)
      show "length (?pl p) = s * H" by (rule c(1))
      fix row assume "row \<in> set (?pl p)"
      then obtain y where "y < s * H" "row = ?pl p ! y"
        by (auto simp: in_set_conv_nth c(1))
      then show "length row = s * W" using c(2) by simp
    qed
  qed
  have px: "?up ! n ! c ! y ! x =
              (if s dvd y \<and> s dvd x then lr_images ! n ! c ! (y div s) ! (x div s) else 0)"
    if "n < length ?up" "c < 3" "y < s * H" "x < s * W" for n c y x
  proof -
    have n: "n < length lr_images" using that(1) by simp
    have "?up ! n ! c = ?pl (lr_images ! n ! c)"
      using n that(2) img [OF n that(2)] by simp
    then show ?thesis
      using conv_transpose_plane_corner(3) [OF s0 pl [OF n that(2)] that(3,4)] by simp
  qed
  have nz: "y mod s = 0 \<and> x mod s = 0"
    if "n < length ?up" "c < 3" "y < s * H" "x < s * W" "?up ! n ! c ! y ! x \<noteq> 0" for n c y x
    using px [OF that(1-4)] that(5) by (auto split: if_splits)
  have "map (\<lambda>p. map (every_nth s) (every_nth s (?pl p))) img = img"
    if "img \<in> set lr_images" for img
  proof (rule map_idI)
    fix p assume "p \<in> set img"
    then have "rect H W p" using sh that by (auto simp: image_shape_def)
    then show "map (every_nth s) (every_nth s (?pl p)) = p" by (rule plane_roundtrip [OF s0])
  qed
  then have down: "downsample s ?up = lr_images"
    by (simp add: downsample_def comp_def map_idI)
  show ?thesis
    using up shape px nz down by (intro exI [where x = ?up]) (simp del: length_map, simp)
qed

lemma example_sr_kernel:
  "scale_kernel example_sr_controller = Some (replicate 3 [[[1, 0], [0, 0]]])"
  "make_scale_kernel (SCALE (config example_sr_controller)) = Inr (replicate 3 [[[1, 0], [0, 0]]])"
  "nat (SCALE (config example_sr_controller)) = 2"
  by (simp_all add: example_sr_controller_def BaseModel_init_def example_config_def
      make_scale_kernel_def np_zeros_def Let_def numeral_2_eq_2)

lemma example_image_shape: "image_shape 2 2 example_image"
  by (simp add: image_shape_def rect_def example_image_def)

theorem SR_upsample_zero_insertion_witness:
  "scale_kernel example_sr_controller = Some (replicate 3 [[[1, 0], [0, 0]]]) \<and>
   make_scale_kernel (SCALE (config example_sr_controller)) =
     Inr (replicate 3 [[[1, 0], [0, 0]]]) \<and>
   image_shape 2 2 example_image \<and>
   (\<exists>up. SRModel_upsample example_sr_controller example_image = Inr up \<and>
         image_shape 4 4 up \<and>
         up ! 0 ! 0 ! 2 ! 2 = 4 \<and> up ! 0 ! 0 ! 2 ! 1 = 0 \<and>
         downsample 2 up = example_image)"
proof -
  from SR_upsample_zero_insertion
    [OF example_sr_kernel(1) example_sr_kernel(2) example_image_shape example_sr_kernel(3) [symmetric]]
  obtain up where up: "SRModel_upsample example_sr_controller example_image = Inr up"
    and len: "length up = length example_image"
    and sh: "image_shape (2 * 2) (2 * 2) up"
    and px: "\<forall>n<length up. \<forall>c<3. \<forall>y<2 * 2. \<forall>x<2 * 2.
               up ! n ! c ! y ! x =
                 (if 2 dvd y \<and> 2 dvd x then example_image ! n ! c ! (y div 2) ! (x div 2) else 0)"
    and down: "downsample 2 up = example_image"
    by blast
  have l: "0 < length up" by (simp add: len example_image_def)
  have "up ! 0 ! 0 ! 2 ! 2 = example_image ! 0 ! 0 ! 1 ! 1"
    using px l by simp
  moreover have "up ! 0 ! 0 ! 2 ! 1 = 0"
    using px l by simp
  ultimately have "up ! 0 ! 0 ! 2 ! 2 = 4 \<and> up ! 0 ! 0 ! 2 ! 1 = 0"
    by (simp add: example_image_def)
  with up sh down example_sr_kernel(1,2) example_image_shape show ?thesis
    by auto
qed

end
